theory Spec2Isabelle
  imports Complex_Main "HOL-Library.Char_ord" "HOL-Library.List_Lexorder"
begin

section \<open>Characters and strings as Python sees them\<close>

text \<open>
  Strings are byte strings (\<open>char list\<close>). The character classes below are the ASCII part
  of Python's: \<open>str.isspace\<close> and the regular-expression class \<open>\s\<close> agree on the ten
  ASCII white-space characters, \<open>\d\<close> on ASCII is \<open>0\<close> to \<open>9\<close>, and \<open>str.lower\<close>
  changes the letters \<open>A\<close> to \<open>Z\<close> only.
\<close>

definition is_digit :: "char \<Rightarrow> bool" where
  "is_digit c = (c \<in> set ''0123456789'')"

definition space_chars :: string where
  "space_chars = [CHR 0x20, CHR 0x09, CHR 0x0A, CHR 0x0B, CHR 0x0C, CHR 0x0D,
                  CHR 0x1C, CHR 0x1D, CHR 0x1E, CHR 0x1F]"

definition is_space :: "char \<Rightarrow> bool" where
  "is_space c = (c \<in> set space_chars)"

definition lower_char :: "char \<Rightarrow> char" where
  "lower_char c =
     (case map_of (zip ''ABCDEFGHIJKLMNOPQRSTUVWXYZ'' ''abcdefghijklmnopqrstuvwxyz'') c of
        Some l \<Rightarrow> l
      | None \<Rightarrow> c)"

definition py_lower :: "string \<Rightarrow> string" where
  "py_lower s = map lower_char s"

definition py_strip :: "string \<Rightarrow> string" where
  "py_strip s = rev (dropWhile is_space (rev (dropWhile is_space s)))"

fun starts_with :: "string \<Rightarrow> string \<Rightarrow> bool" where
  "starts_with [] s = True"
| "starts_with (p # ps) [] = False"
| "starts_with (p # ps) (c # cs) = (p = c \<and> starts_with ps cs)"

text \<open>\<open>py_in sub s\<close> is Python's \<open>sub in s\<close> on strings.\<close>

fun py_in :: "string \<Rightarrow> string \<Rightarrow> bool" where
  "py_in sub [] = (sub = [])"
| "py_in sub (c # cs) = (starts_with sub (c # cs) \<or> py_in sub cs)"

fun py_join :: "string \<Rightarrow> string list \<Rightarrow> string" where
  "py_join sep [] = []"
| "py_join sep [x] = x"
| "py_join sep (x # y # ys) = x @ sep @ py_join sep (y # ys)"

definition digit_val :: "char \<Rightarrow> nat" where
  "digit_val c = (case map_of (zip ''0123456789'' [0, 1, 2, 3, 4, 5, 6, 7, 8, 9]) c of
                    Some d \<Rightarrow> d
                  | None \<Rightarrow> 0)"

definition digits_val :: "string \<Rightarrow> nat" where
  "digits_val ds = foldl (\<lambda>acc c. 10 * acc + digit_val c) 0 ds"

definition digit_char :: "nat \<Rightarrow> char" where
  "digit_char d = ''0123456789'' ! d"

text \<open>\<open>str(n)\<close> for a non-negative integer.\<close>

fun show_nat :: "nat \<Rightarrow> string" where
  "show_nat n = (if n < 10 then [digit_char n] else show_nat (n div 10) @ [digit_char (n mod 10)])"

text \<open>Zero padding to a width, as the \<open>%02d\<close> and \<open>%04d\<close> of date formatting.\<close>

definition zero_pad :: "nat \<Rightarrow> nat \<Rightarrow> string" where
  "zero_pad w n = replicate (w - length (show_nat n)) (CHR ''0'') @ show_nat n"

section \<open>Regular expressions with Python's backtracking order\<close>

text \<open>
  The patterns of \<open>utils.py\<close> and of \<open>datetime.strptime\<close> are built from character classes,
  case-insensitive literals (every pattern here is compiled with \<open>re.IGNORECASE\<close> or has no
  letters), sequence, alternation, greedy repetition, capturing groups and \<open>$\<close>.
  \<open>matches r s\<close> lists every way \<open>r\<close> matches a prefix of \<open>s\<close>, in the order in which
  the backtracking matcher tries them: the captured groups and the unread rest.
\<close>

datatype rx =
    Cls string
  | LitI string
  | Seq rx rx
  | Alt rx rx
  | Star rx
  | Grp rx
  | Eol

fun matches :: "rx \<Rightarrow> string \<Rightarrow> (string list \<times> string) list" where
  "matches (Cls cs) s = (case s of [] \<Rightarrow> [] | c # t \<Rightarrow> if c \<in> set cs then [([], t)] else [])"
| "matches (LitI l) s =
     (if length l \<le> length s \<and> py_lower (take (length l) s) = py_lower l
      then [([], drop (length l) s)] else [])"
| "matches (Seq a b) s =
     concat (map (\<lambda>m1. map (\<lambda>m2. (fst m1 @ fst m2, snd m2)) (matches b (snd m1))) (matches a s))"
| "matches (Alt a b) s = matches a s @ matches b s"
| "matches (Star a) s =
     concat (map (\<lambda>m1. if length (snd m1) < length s
                         then map (\<lambda>m2. (fst m1 @ fst m2, snd m2)) (matches (Star a) (snd m1))
                         else [])
                 (matches a s))
     @ [([], s)]"
| "matches (Grp a) s =
     map (\<lambda>m. (take (length s - length (snd m)) s # fst m, snd m)) (matches a s)"
| "matches Eol s = (if s = [] \<or> s = [CHR 0x0A] then [([], s)] else [])"

definition Plus :: "rx \<Rightarrow> rx" where
  "Plus a = Seq a (Star a)"

definition Opt :: "rx \<Rightarrow> rx" where
  "Opt a = Alt a (LitI [])"

definition rx_digit :: rx where
  "rx_digit = Cls ''0123456789''"

definition rx_space :: rx where
  "rx_space = Cls space_chars"

text \<open>\<open>re.match\<close>: the first match at the start of the string; its groups.\<close>

definition re_match :: "rx \<Rightarrow> string \<Rightarrow> (string list \<times> string) option" where
  "re_match r s = (case matches r s of [] \<Rightarrow> None | m # _ \<Rightarrow> Some m)"

text \<open>\<open>re.search\<close>: the first match at the leftmost position that has one.\<close>

fun re_search :: "rx \<Rightarrow> string \<Rightarrow> (string list \<times> string) option" where
  "re_search r [] = re_match r []"
| "re_search r (c # cs) =
     (case re_match r (c # cs) of Some m \<Rightarrow> Some m | None \<Rightarrow> re_search r cs)"

section \<open>Python's \<open>float\<close> and \<open>int\<close> on strings\<close>

text \<open>
  A Python float is modelled as an exact rational or one of the three special values;
  rounding and overflow are outside the model. \<open>py_float s\<close> is \<open>float(s)\<close>, with
  \<open>None\<close> for \<open>ValueError\<close>: surrounding white space, a sign, then \<open>inf\<close>,
  \<open>infinity\<close> or \<open>nan\<close> in any case, or a decimal number with an optional exponent;
  single underscores may separate digits.
\<close>

datatype pyfloat = Fin rat | PInf | NInf | NaN

fun digitpart_rest :: "string \<Rightarrow> string \<times> string" where
  "digitpart_rest [] = ([], [])"
| "digitpart_rest (c # cs) =
     (if is_digit c then (let dr = digitpart_rest cs in (c # fst dr, snd dr))
      else if c = CHR ''_'' then
        (case cs of
           [] \<Rightarrow> ([], c # cs)
         | d # ds \<Rightarrow>
             if is_digit d then (let dr = digitpart_rest ds in (d # fst dr, snd dr))
             else ([], c # cs))
      else ([], c # cs))"

text \<open>The digits of a leading digit part (empty when there is none) and the rest.\<close>

definition opt_digitpart :: "string \<Rightarrow> string \<times> string" where
  "opt_digitpart s =
     (case s of
        [] \<Rightarrow> ([], [])
      | c # cs \<Rightarrow>
          if is_digit c then (let dr = digitpart_rest cs in (c # fst dr, snd dr)) else ([], s))"

definition split_sign :: "string \<Rightarrow> bool \<times> string" where
  "split_sign s =
     (case s of
        [] \<Rightarrow> (False, s)
      | c # cs \<Rightarrow>
          if c = CHR ''-'' then (True, cs) else if c = CHR ''+'' then (False, cs) else (False, s))"

definition exponent :: "string \<Rightarrow> int option" where
  "exponent s =
     (case s of
        [] \<Rightarrow> Some 0
      | c # cs \<Rightarrow>
          if c = CHR ''e'' \<or> c = CHR ''E'' then
            (let sg = split_sign cs; dp = opt_digitpart (snd sg)
             in if fst dp \<noteq> [] \<and> snd dp = []
                then Some (if fst sg then - int (digits_val (fst dp)) else int (digits_val (fst dp)))
                else None)
          else None)"

definition scale10 :: "rat \<Rightarrow> int \<Rightarrow> rat" where
  "scale10 r e = (if 0 \<le> e then r * 10 ^ nat e else r / 10 ^ nat (- e))"

definition decimal :: "string \<Rightarrow> rat option" where
  "decimal u =
     (let ip = opt_digitpart u;
          fp = (case snd ip of
                  [] \<Rightarrow> ([], [])
                | c # cs \<Rightarrow> if c = CHR ''.'' then opt_digitpart cs else ([], c # cs))
      in if fst ip = [] \<and> fst fp = [] then None
         else (case exponent (snd fp) of
                 None \<Rightarrow> None
               | Some e \<Rightarrow>
                   Some (scale10 (of_nat (digits_val (fst ip @ fst fp)) / 10 ^ length (fst fp)) e)))"

definition py_float :: "string \<Rightarrow> pyfloat option" where
  "py_float s =
     (let sg = split_sign (py_strip s); u = py_lower (snd sg)
      in if u = ''inf'' \<or> u = ''infinity'' then Some (if fst sg then NInf else PInf)
         else if u = ''nan'' then Some NaN
         else map_option (\<lambda>r. Fin (if fst sg then - r else r)) (decimal (snd sg)))"

definition py_int :: "string \<Rightarrow> int option" where
  "py_int s =
     (let sg = split_sign (py_strip s); dp = opt_digitpart (snd sg)
      in if fst dp \<noteq> [] \<and> snd dp = []
         then Some (if fst sg then - int (digits_val (fst dp)) else int (digits_val (fst dp)))
         else None)"

text \<open>Float addition and multiplication by a finite factor, on the extended values.\<close>

fun fadd :: "pyfloat \<Rightarrow> pyfloat \<Rightarrow> pyfloat" where
  "fadd (Fin a) (Fin b) = Fin (a + b)"
| "fadd NaN _ = NaN"
| "fadd _ NaN = NaN"
| "fadd PInf NInf = NaN"
| "fadd NInf PInf = NaN"
| "fadd PInf _ = PInf"
| "fadd _ PInf = PInf"
| "fadd NInf _ = NInf"
| "fadd _ NInf = NInf"

fun fmul60 :: "pyfloat \<Rightarrow> pyfloat" where
  "fmul60 (Fin a) = Fin (a * 60)"
| "fmul60 x = x"

text \<open>\<open>x >= m\<close> for a float \<open>x\<close> and a finite threshold \<open>m\<close>.\<close>

fun fge :: "pyfloat \<Rightarrow> rat \<Rightarrow> bool" where
  "fge (Fin a) m = (m \<le> a)"
| "fge PInf m = True"
| "fge NInf m = False"
| "fge NaN m = False"

section \<open>Cell values\<close>

datatype date = Date (year: nat) (month: nat) (day: nat)

text \<open>
  What a table cell or a Python variable of the program can hold: a number (pandas' missing
  value is the float \<open>NaN\<close>), a string, \<open>None\<close>, a \<open>datetime.date\<close>, pandas'
  \<open>NaT\<close>, and a timestamp (a \<open>datetime\<close> at midnight of the given date).
\<close>

datatype cell = Num pyfloat | Str string | NoneV | DateV date | NaTV | Stamp date

abbreviation Missing :: cell where
  "Missing \<equiv> Num NaN"

datatype py_error = KeyError string | ValueError | TypeError

fun pd_isna :: "cell \<Rightarrow> bool" where
  "pd_isna (Num x) = (x = NaN)"
| "pd_isna NoneV = True"
| "pd_isna NaTV = True"
| "pd_isna _ = False"

definition isoformat :: "date \<Rightarrow> string" where
  "isoformat d = zero_pad 4 (year d) @ ''-'' @ zero_pad 2 (month d) @ ''-'' @ zero_pad 2 (day d)"

text \<open>\<open>str(v)\<close>; the text of a finite number is the library's (\<open>str_num\<close>).\<close>

fun py_str :: "(rat \<Rightarrow> string) \<Rightarrow> cell \<Rightarrow> string" where
  "py_str str_num (Num (Fin r)) = str_num r"
| "py_str str_num (Num PInf) = ''inf''"
| "py_str str_num (Num NInf) = ''-inf''"
| "py_str str_num (Num NaN) = ''nan''"
| "py_str str_num (Str s) = s"
| "py_str str_num NoneV = ''None''"
| "py_str str_num (DateV d) = isoformat d"
| "py_str str_num NaTV = ''NaT''"
| "py_str str_num (Stamp d) = isoformat d @ '' 00:00:00''"

section \<open>Value parsers (\<open>utils.py\<close>)\<close>

fun normalize_email :: "cell \<Rightarrow> string" where
  "normalize_email (Str s) = py_lower (py_strip s)"
| "normalize_email _ = []"

definition rx_number :: rx where
  "rx_number = Grp (Seq (Plus rx_digit) (Opt (Seq (LitI ''.'') (Plus rx_digit))))"

definition rx_hms :: rx where
  "rx_hms = Seq (Grp (Plus rx_digit)) (Seq (LitI '':'') (Seq (Grp (Plus rx_digit))
              (Seq (LitI '':'') (Seq (Grp (Plus rx_digit)) Eol))))"

definition rx_ms :: rx where
  "rx_ms = Seq (Grp (Plus rx_digit)) (Seq (LitI '':'') (Seq (Grp (Plus rx_digit)) Eol))"

definition rx_hour :: rx where
  "rx_hour = Seq rx_number (Seq (Star rx_space)
               (Alt (LitI ''h'') (Alt (LitI ''hr'') (Alt (LitI ''hour'') (LitI ''hours'')))))"

definition rx_min :: rx where
  "rx_min = Seq rx_number (Seq (Star rx_space)
              (Alt (LitI ''m'') (Alt (LitI ''min'') (Alt (LitI ''mins'')
                (Alt (LitI ''minute'') (LitI ''minutes''))))))"

text \<open>\<open>float(m.group(1))\<close> for a match object or \<open>None\<close>.\<close>

definition group1_float :: "(string list \<times> string) option \<Rightarrow> py_error + pyfloat" where
  "group1_float m =
     (case m of
        Some (g # _, _) \<Rightarrow> (case py_float g of Some x \<Rightarrow> Inr x | None \<Rightarrow> Inl ValueError)
      | _ \<Rightarrow> Inl TypeError)"

text \<open>The part of \<open>parse_duration_to_minutes\<close> that works on the stripped string.\<close>

definition duration_of_string :: "string \<Rightarrow> py_error + pyfloat" where
  "duration_of_string duration_str =
     (case py_float duration_str of
        Some x \<Rightarrow> Inr x
      | None \<Rightarrow>
     (case re_match rx_hms duration_str of
        Some tm \<Rightarrow>
          (case map py_int (fst tm) of
             [Some hours, Some minutes, Some seconds] \<Rightarrow>
               Inr (Fin (of_int hours * 60 + of_int minutes + of_int seconds / 60))
           | _ \<Rightarrow> Inl ValueError)
      | None \<Rightarrow>
     (case re_match rx_ms duration_str of
        Some tm \<Rightarrow>
          (case map py_int (fst tm) of
             [Some minutes, Some seconds] \<Rightarrow> Inr (Fin (of_int minutes + of_int seconds / 60))
           | _ \<Rightarrow> Inl ValueError)
      | None \<Rightarrow>
     (let hour_match = re_search rx_hour duration_str;
          min_match = re_search rx_min duration_str
      in (case (if hour_match \<noteq> None
                then map_sum id (\<lambda>x. fadd (Fin 0) (fmul60 x)) (group1_float hour_match)
                else Inr (Fin 0)) of
            Inl e \<Rightarrow> Inl e
          | Inr total1 \<Rightarrow>
         (case (if min_match \<noteq> None
                then map_sum id (\<lambda>x. fadd total1 x) (group1_float min_match)
                else Inr total1) of
            Inl e \<Rightarrow> Inl e
          | Inr total2 \<Rightarrow>
              if hour_match \<noteq> None \<or> min_match \<noteq> None then Inr total2
              else (case re_search rx_number duration_str of
                      Some num_match \<Rightarrow> group1_float (Some num_match)
                    | None \<Rightarrow> Inr (Fin 0))))))))"

definition parse_duration_to_minutes :: "(rat \<Rightarrow> string) \<Rightarrow> cell \<Rightarrow> py_error + pyfloat" where
  "parse_duration_to_minutes str_num duration_value =
     (if pd_isna duration_value then Inr (Fin 0)
      else (case duration_value of
              Num x \<Rightarrow> Inr x
            | _ \<Rightarrow> duration_of_string (py_strip (py_str str_num duration_value))))"

text \<open>
  \<open>datetime.strptime\<close> turns the format into a regular expression (one group per
  directive, white space as \<open>\s+\<close>, compiled case-insensitively), takes its first match at
  the start of the string, fails when text remains after the match, and fails when the
  fields are not a date of the calendar. \<open>None\<close> is \<open>ValueError\<close>.
\<close>

datatype fmt = Fd | Fm | FY | Fy | Fb | FB | FLit string | FSpace

definition month_abbrs :: "string list" where
  "month_abbrs = [''jan'', ''feb'', ''mar'', ''apr'', ''may'', ''jun'',
                  ''jul'', ''aug'', ''sep'', ''oct'', ''nov'', ''dec'']"

definition month_names :: "string list" where
  "month_names = [''january'', ''february'', ''march'', ''april'', ''may'', ''june'',
                  ''july'', ''august'', ''september'', ''october'', ''november'', ''december'']"

text \<open>The alternatives of a month group, longest names first as the library sorts them.\<close>

definition rx_month_names :: rx where
  "rx_month_names =
     Alt (LitI ''september'') (Alt (LitI ''february'') (Alt (LitI ''november'')
    (Alt (LitI ''december'') (Alt (LitI ''january'') (Alt (LitI ''october'')
    (Alt (LitI ''august'') (Alt (LitI ''march'') (Alt (LitI ''april'')
    (Alt (LitI ''june'') (Alt (LitI ''july'') (LitI ''may'')))))))))))"

definition rx_month_abbrs :: rx where
  "rx_month_abbrs =
     Alt (LitI ''jan'') (Alt (LitI ''feb'') (Alt (LitI ''mar'')
    (Alt (LitI ''apr'') (Alt (LitI ''may'') (Alt (LitI ''jun'')
    (Alt (LitI ''jul'') (Alt (LitI ''aug'') (Alt (LitI ''sep'')
    (Alt (LitI ''oct'') (Alt (LitI ''nov'') (LitI ''dec'')))))))))))"

fun fmt_rx :: "fmt \<Rightarrow> rx" where
  "fmt_rx Fd = Grp (Alt (Seq (Cls ''3'') (Cls ''01''))
                   (Alt (Seq (Cls ''12'') rx_digit)
                   (Alt (Seq (Cls ''0'') (Cls ''123456789''))
                   (Alt (Cls ''123456789'')
                        (Seq (Cls '' '') (Cls ''123456789''))))))"
| "fmt_rx Fm = Grp (Alt (Seq (Cls ''1'') (Cls ''012''))
                   (Alt (Seq (Cls ''0'') (Cls ''123456789''))
                        (Cls ''123456789'')))"
| "fmt_rx FY = Grp (Seq rx_digit (Seq rx_digit (Seq rx_digit rx_digit)))"
| "fmt_rx Fy = Grp (Seq rx_digit rx_digit)"
| "fmt_rx Fb = Grp rx_month_abbrs"
| "fmt_rx FB = Grp rx_month_names"
| "fmt_rx (FLit l) = LitI l"
| "fmt_rx FSpace = Plus rx_space"

fun is_directive :: "fmt \<Rightarrow> bool" where
  "is_directive (FLit l) = False"
| "is_directive FSpace = False"
| "is_directive _ = True"

definition index_of :: "string \<Rightarrow> string list \<Rightarrow> nat" where
  "index_of x xs = length (takeWhile (\<lambda>y. y \<noteq> x) xs)"

text \<open>One parsed field written into (year, month, day).\<close>

fun set_field :: "nat \<times> nat \<times> nat \<Rightarrow> fmt \<times> string \<Rightarrow> nat \<times> nat \<times> nat" where
  "set_field (y, m, d) (Fd, g) = (y, m, digits_val (dropWhile is_space g))"
| "set_field (y, m, d) (Fm, g) = (y, digits_val g, d)"
| "set_field (y, m, d) (FY, g) = (digits_val g, m, d)"
| "set_field (y, m, d) (Fy, g) =
     ((if digits_val g \<le> 68 then digits_val g + 2000 else digits_val g + 1900), m, d)"
| "set_field (y, m, d) (Fb, g) = (y, index_of (py_lower g) month_abbrs + 1, d)"
| "set_field (y, m, d) (FB, g) = (y, index_of (py_lower g) month_names + 1, d)"
| "set_field ymd _ = ymd"

definition is_leap :: "nat \<Rightarrow> bool" where
  "is_leap y = (y mod 4 = 0 \<and> (y mod 100 \<noteq> 0 \<or> y mod 400 = 0))"

definition days_in_month :: "nat \<Rightarrow> nat \<Rightarrow> nat" where
  "days_in_month y m =
     (if m = 2 then (if is_leap y then 29 else 28)
      else if m = 4 \<or> m = 6 \<or> m = 9 \<or> m = 11 then 30 else 31)"

definition valid_date :: "nat \<Rightarrow> nat \<Rightarrow> nat \<Rightarrow> bool" where
  "valid_date y m d =
     (1 \<le> y \<and> y \<le> 9999 \<and> 1 \<le> m \<and> m \<le> 12 \<and> 1 \<le> d \<and> d \<le> days_in_month y m)"

definition strptime :: "string \<Rightarrow> fmt list \<Rightarrow> date option" where
  "strptime data_string format =
     (case re_match (foldr Seq (map fmt_rx format) (LitI [])) data_string of
        None \<Rightarrow> None
      | Some found \<Rightarrow>
          if snd found \<noteq> [] then None
          else (case foldl set_field (1900, 1, 1) (zip (filter is_directive format) (fst found)) of
                  (y, m, d) \<Rightarrow> if valid_date y m d then Some (Date y m d) else None))"

definition formats :: "fmt list list" where
  "formats =
     [[Fd, FLit ''-'', Fm, FLit ''-'', FY],
      [Fd, FLit ''/'', Fm, FLit ''/'', FY],
      [FY, FLit ''-'', Fm, FLit ''-'', Fd],
      [Fd, FLit ''-'', Fm, FLit ''-'', Fy],
      [Fd, FLit ''/'', Fm, FLit ''/'', Fy],
      [Fm, FLit ''-'', Fd, FLit ''-'', FY],
      [Fm, FLit ''/'', Fd, FLit ''/'', FY],
      [Fd, FSpace, Fb, FSpace, FY],
      [Fd, FSpace, FB, FSpace, FY],
      [FY, FLit ''/'', Fm, FLit ''/'', Fd]]"

text \<open>
  The result of \<open>pd.to_datetime(date_str, dayfirst=True).date()\<close>, a library call that the
  development takes as a parameter: it raises, or gives \<open>NaT\<close>, or gives a date.
\<close>

datatype fb_result = FbRaise | FbNaT | FbDate date

text \<open>The loop over the formats: the first one that parses wins.\<close>

fun try_formats :: "string \<Rightarrow> fmt list list \<Rightarrow> date option" where
  "try_formats date_str [] = None"
| "try_formats date_str (f # fs) =
     (case strptime date_str f of Some d \<Rightarrow> Some d | None \<Rightarrow> try_formats date_str fs)"

definition parse_date :: "(rat \<Rightarrow> string) \<Rightarrow> (string \<Rightarrow> fb_result) \<Rightarrow> cell \<Rightarrow> cell" where
  "parse_date str_num to_datetime date_value =
     (if pd_isna date_value then NoneV
      else (case date_value of
              Stamp d \<Rightarrow> DateV d
            | _ \<Rightarrow>
                (let date_str = py_strip (py_str str_num date_value)
                 in (case try_formats date_str formats of
                       Some d \<Rightarrow> DateV d
                     | None \<Rightarrow>
                         (case to_datetime date_str of
                            FbDate d \<Rightarrow> DateV d
                          | FbNaT \<Rightarrow> NaTV
                          | FbRaise \<Rightarrow> NoneV)))))"

section \<open>Tables and the library\<close>

text \<open>
  A pandas \<open>DataFrame\<close> with a default index: the column labels in order, and the rows,
  each giving a cell for every label. Labels are distinct. A row's value at a label that is
  not in \<open>columns\<close> is not part of the table.
\<close>

record dataframe =
  columns :: "string list"
  rows :: "(string \<Rightarrow> cell) list"

datatype encoding = Utf8 | Latin1

datatype csv_read = ReadOk dataframe | UnicodeDecodeError string | ReadError string

text \<open>
  The library and operating-system calls of the program, as parameters: reading a file
  with an encoding (a table, a decoding error or another exception, with its text), writing
  a table to a path (\<open>Some\<close> the text of the exception when it fails), the generic date
  parser, the text of a finite number, and the two path functions.
\<close>

record pylib =
  read_csv :: "string \<Rightarrow> encoding \<Rightarrow> csv_read"
  to_csv :: "dataframe \<Rightarrow> string \<Rightarrow> string option"
  to_datetime :: "string \<Rightarrow> fb_result"
  str_num :: "rat \<Rightarrow> string"
  dirname :: "string \<Rightarrow> string"
  path_join :: "string \<Rightarrow> string \<Rightarrow> string"

definition andthen :: "'e + 'a \<Rightarrow> ('a \<Rightarrow> 'e + 'b) \<Rightarrow> 'e + 'b" where
  "andthen x f = (case x of Inl e \<Rightarrow> Inl e | Inr a \<Rightarrow> f a)"

text \<open>\<open>m[k]\<close> on a dictionary.\<close>

definition lookup :: "(string \<rightharpoonup> string) \<Rightarrow> string \<Rightarrow> py_error + string" where
  "lookup m k = (case m k of None \<Rightarrow> Inl (KeyError k) | Some v \<Rightarrow> Inr v)"

definition add_column :: "string \<Rightarrow> string list \<Rightarrow> string list" where
  "add_column c cs = (if c \<in> set cs then cs else cs @ [c])"

text \<open>\<open>df[dst] = v\<close> for a scalar \<open>v\<close>.\<close>

definition assign_const :: "dataframe \<Rightarrow> string \<Rightarrow> cell \<Rightarrow> dataframe" where
  "assign_const df dst v =
     df\<lparr>columns := add_column dst (columns df), rows := map (\<lambda>r. r(dst := v)) (rows df)\<rparr>"

text \<open>\<open>df[dst] = df[src].apply(f)\<close>; reading a label that is not a column is a \<open>KeyError\<close>.\<close>

definition assign_from ::
  "dataframe \<Rightarrow> string \<Rightarrow> string \<Rightarrow> (cell \<Rightarrow> cell) \<Rightarrow> py_error + dataframe" where
  "assign_from df dst src f =
     (if src \<in> set (columns df)
      then Inr (df\<lparr>columns := add_column dst (columns df),
                    rows := map (\<lambda>r. r(dst := f (r src))) (rows df)\<rparr>)
      else Inl (KeyError src))"

text \<open>\<open>df.at[idx, c]\<close>, read and written, for a row index in range and a column.\<close>

definition at_get :: "dataframe \<Rightarrow> nat \<Rightarrow> string \<Rightarrow> cell" where
  "at_get df idx c = (rows df ! idx) c"

definition at_set :: "dataframe \<Rightarrow> nat \<Rightarrow> string \<Rightarrow> cell \<Rightarrow> dataframe" where
  "at_set df idx c v = df\<lparr>rows := (rows df)[idx := ((rows df ! idx)(c := v))]\<rparr>"

text \<open>\<open>df.drop(columns=names, errors='ignore')\<close>.\<close>

definition drop_columns :: "string list \<Rightarrow> dataframe \<Rightarrow> dataframe" where
  "drop_columns names df = df\<lparr>columns := filter (\<lambda>c. c \<notin> set names) (columns df)\<rparr>"

text \<open>\<open>df.columns = df.columns.str.strip()\<close>: the cells move to the stripped labels.\<close>

definition strip_columns :: "dataframe \<Rightarrow> dataframe" where
  "strip_columns df =
     \<lparr>columns = map py_strip (columns df),
      rows = map (\<lambda>r c. case find (\<lambda>old. py_strip old = c) (columns df) of
                            Some old \<Rightarrow> r old
                          | None \<Rightarrow> Missing) (rows df)\<rparr>"

section \<open>Reading and column detection (\<open>utils.py\<close>)\<close>

text \<open>The pair \<open>(df, None)\<close> is \<open>Inr df\<close>, the pair \<open>(None, message)\<close> is \<open>Inl message\<close>.\<close>

definition read_csv_safe :: "pylib \<Rightarrow> string \<Rightarrow> string + dataframe" where
  "read_csv_safe lib filepath =
     (case read_csv lib filepath Utf8 of
        ReadOk df \<Rightarrow> Inr (strip_columns df)
      | UnicodeDecodeError u \<Rightarrow>
          (case read_csv lib filepath Latin1 of
             ReadOk df \<Rightarrow> Inr (strip_columns df)
           | UnicodeDecodeError e \<Rightarrow> Inl (''Error reading file: '' @ e)
           | ReadError e \<Rightarrow> Inl (''Error reading file: '' @ e))
      | ReadError e \<Rightarrow> Inl (''Error reading file: '' @ e))"

definition detect_registration_step :: "(string \<rightharpoonup> string) \<Rightarrow> string \<Rightarrow> (string \<rightharpoonup> string)" where
  "detect_registration_step col_map col =
     (let col_lower = py_strip (py_lower col)
      in if py_in ''email'' col_lower \<and> col_map ''Email'' = None
           then col_map(''Email'' \<mapsto> col)
         else if (py_in ''training date'' col_lower \<or> py_in ''training_date'' col_lower)
                 \<and> col_map ''Training date'' = None
           then col_map(''Training date'' \<mapsto> col)
         else if py_in ''attendance'' col_lower \<and> py_in ''day 1'' col_lower
                 \<and> col_map ''Attendance - Day 1'' = None
           then col_map(''Attendance - Day 1'' \<mapsto> col)
         else if py_in ''attendance'' col_lower \<and> py_in ''day 2'' col_lower
                 \<and> col_map ''Attendance - Day 2'' = None
           then col_map(''Attendance - Day 2'' \<mapsto> col)
         else if (col_lower = ''name'' \<or> col_lower = ''participant name'')
                 \<and> col_map ''Name'' = None
           then col_map(''Name'' \<mapsto> col)
         else if (py_in ''version'' col_lower \<or> py_in ''program'' col_lower)
                 \<and> col_map ''Version'' = None
           then col_map(''Version'' \<mapsto> col)
         else col_map)"

definition detect_registration_columns :: "dataframe \<Rightarrow> (string \<rightharpoonup> string)" where
  "detect_registration_columns df = foldl detect_registration_step Map.empty (columns df)"

definition detect_zoom_step :: "(string \<rightharpoonup> string) \<Rightarrow> string \<Rightarrow> (string \<rightharpoonup> string)" where
  "detect_zoom_step col_map col =
     (let col_lower = py_strip (py_lower col)
      in if py_in ''email'' col_lower \<and> col_map ''Email'' = None
           then col_map(''Email'' \<mapsto> col)
         else if py_in ''duration'' col_lower \<and> col_map ''Duration'' = None
           then col_map(''Duration'' \<mapsto> col)
         else if py_in ''name'' col_lower \<and> col_map ''Name'' = None
           then col_map(''Name'' \<mapsto> col)
         else col_map)"

definition detect_zoom_columns :: "dataframe \<Rightarrow> (string \<rightharpoonup> string)" where
  "detect_zoom_columns df = foldl detect_zoom_step Map.empty (columns df)"

definition load_registration_csv ::
  "pylib \<Rightarrow> string \<Rightarrow> (string \<rightharpoonup> string) option \<Rightarrow> string + dataframe \<times> (string \<rightharpoonup> string)" where
  "load_registration_csv lib filepath col_map_override =
     (case read_csv_safe lib filepath of
        Inl err \<Rightarrow> Inl err
      | Inr df \<Rightarrow>
          (let col_map = (case col_map_override of
                            Some m \<Rightarrow> m
                          | None \<Rightarrow> detect_registration_columns df);
               missing = filter (\<lambda>r. col_map r = None) [''Email'', ''Training date'']
           in if missing \<noteq> []
              then Inl (''Missing required columns: '' @ py_join '', '' missing)
              else Inr (df, col_map)))"

definition load_zoom_csv ::
  "pylib \<Rightarrow> string \<Rightarrow> (string \<rightharpoonup> string) option \<Rightarrow> string + dataframe \<times> (string \<rightharpoonup> string)" where
  "load_zoom_csv lib filepath col_map_override =
     (case read_csv_safe lib filepath of
        Inl err \<Rightarrow> Inl err
      | Inr df \<Rightarrow>
          (let col_map = (case col_map_override of
                            Some m \<Rightarrow> m
                          | None \<Rightarrow> detect_zoom_columns df);
               missing = filter (\<lambda>r. col_map r = None) [''Email'', ''Duration'']
           in if missing \<noteq> []
              then Inl (''Missing required columns in Zoom CSV: '' @ py_join '', '' missing)
              else Inr (df, col_map)))"

section \<open>The reconciliation (\<open>processor.py\<close>)\<close>

record attendance_result =
  total_registrations :: nat
  total_zoom_participants :: nat
  matched_present :: nat
  matched_below_threshold :: nat
  not_found_in_zoom :: nat
  unmatched_zoom_emails :: "string list"
  output_filepath :: string
  errors :: "string list"
  warnings :: "string list"

definition empty_result :: attendance_result where
  "empty_result =
     \<lparr>total_registrations = 0, total_zoom_participants = 0, matched_present = 0,
      matched_below_threshold = 0, not_found_in_zoom = 0, unmatched_zoom_emails = [],
      output_filepath = [], errors = [], warnings = []\<rparr>"

definition show_int :: "int \<Rightarrow> string" where
  "show_int i = (if i < 0 then ''-'' @ show_nat (nat (- i)) else show_nat (nat i))"

definition att_col_key_of :: "int \<Rightarrow> string" where
  "att_col_key_of attendance_day =
     (if attendance_day = 1 then ''Attendance - Day 1'' else ''Attendance - Day 2'')"

text \<open>\<open>.fillna("").astype(str)\<close> on one cell.\<close>

definition fillna_str :: "(rat \<Rightarrow> string) \<Rightarrow> cell \<Rightarrow> cell" where
  "fillna_str sn v = (if pd_isna v then Str [] else Str (py_str sn v))"

text \<open>
  The test \<open>program_filter and program_filter != "All"\<close>, which the function makes three
  times: the filter string when it holds.
\<close>

definition active_filter :: "string option \<Rightarrow> string option" where
  "active_filter program_filter =
     (case program_filter of
        None \<Rightarrow> None
      | Some p \<Rightarrow> if p \<noteq> [] \<and> p \<noteq> ''All'' then Some p else None)"

text \<open>The mask of step 4: the date, and the program when the filter applies.\<close>

definition scope_mask ::
  "pylib \<Rightarrow> date \<Rightarrow> string option \<Rightarrow> (string \<rightharpoonup> string) \<Rightarrow> dataframe \<Rightarrow> py_error + bool list" where
  "scope_mask lib selected_date program_filter reg_col_map reg_df =
     (let date_mask = map (\<lambda>r. r ''_parsed_date'' = DateV selected_date) (rows reg_df)
      in (case active_filter program_filter of
            None \<Rightarrow> Inr date_mask
          | Some p \<Rightarrow>
              if reg_col_map ''Version'' \<noteq> None then
                andthen (lookup reg_col_map ''Version'') (\<lambda>version_col.
                  if version_col \<in> set (columns reg_df)
                  then Inr (map2 (\<and>) date_mask
                              (map (\<lambda>r. py_strip (py_str (str_num lib) (r version_col)) = p)
                                   (rows reg_df)))
                  else Inl (KeyError version_col))
              else Inr date_mask))"

definition indices_of :: "bool list \<Rightarrow> nat list" where
  "indices_of row_mask = filter (\<lambda>i. row_mask ! i) [0..<length row_mask]"

definition strftime_dmy :: "date \<Rightarrow> string" where
  "strftime_dmy d = zero_pad 2 (day d) @ ''-'' @ zero_pad 2 (month d) @ ''-'' @ zero_pad 4 (year d)"

definition no_registrations_warning :: "date \<Rightarrow> string option \<Rightarrow> string" where
  "no_registrations_warning selected_date program_filter =
     ''No registrations found for date '' @ strftime_dmy selected_date
     @ (case active_filter program_filter of
          Some p \<Rightarrow> '' and program '' @ [CHR 0x27] @ p @ [CHR 0x27]
        | None \<Rightarrow> [])"

text \<open>\<open>Series.apply\<close> of a function that may raise: the first exception ends it.\<close>

fun apply_all :: "('a \<Rightarrow> py_error + 'b) \<Rightarrow> 'a list \<Rightarrow> py_error + 'b list" where
  "apply_all f [] = Inr []"
| "apply_all f (x # xs) =
     (case f x of
        Inl e \<Rightarrow> Inl e
      | Inr y \<Rightarrow> (case apply_all f xs of Inl e \<Rightarrow> Inl e | Inr ys \<Rightarrow> Inr (y # ys)))"

text \<open>The sum of one group: pandas skips \<open>NaN\<close> and adds the rest in row order.\<close>

definition group_sum :: "pyfloat list \<Rightarrow> pyfloat" where
  "group_sum ds = foldl fadd (Fin 0) (filter (\<lambda>d. d \<noteq> NaN) ds)"

text \<open>
  Step 5: \<open>groupby\<close> on the normalized email with the sum of the minutes, as a dictionary
  (the groups come in ascending order of the key), and the empty key removed.
\<close>

definition make_zoom_dict :: "string list \<Rightarrow> pyfloat list \<Rightarrow> (string \<times> pyfloat) list" where
  "make_zoom_dict emails minutes =
     map (\<lambda>k. (k, group_sum (map snd (filter (\<lambda>p. fst p = k) (zip emails minutes)))))
         (filter (\<lambda>k. k \<noteq> []) (sort (remdups emails)))"

text \<open>What the function holds when the marking loop starts.\<close>

record prepared =
  p_reg_df :: dataframe
  p_att_col_name :: string
  p_filtered_indices :: "nat list"
  p_zoom_dict :: "(string \<times> pyfloat) list"
  p_result :: attendance_result

text \<open>
  Steps 2 to 5, in the order of the source. The zoom table's \<open>_normalized_email\<close> is not
  written between its assignment and the \<open>groupby\<close>, and \<open>_duration_minutes\<close> is read by
  nothing else, so the \<open>groupby\<close> takes both lists as they were computed.
\<close>

definition prepare ::
  "pylib \<Rightarrow> date \<Rightarrow> int \<Rightarrow> string option \<Rightarrow> dataframe \<Rightarrow> (string \<rightharpoonup> string) \<Rightarrow>
   dataframe \<Rightarrow> (string \<rightharpoonup> string) \<Rightarrow> py_error + prepared" where
  "prepare lib selected_date attendance_day program_filter reg_df0 reg_col_map0 zoom_df zoom_col_map =
     (let att_col_key = att_col_key_of attendance_day;
          unmapped = (reg_col_map0 att_col_key = None);
          new_name = ''Attendance - Day '' @ show_int attendance_day;
          reg_df1 = (if unmapped then assign_const reg_df0 new_name (Str []) else reg_df0);
          reg_col_map = (if unmapped then reg_col_map0(att_col_key \<mapsto> new_name) else reg_col_map0)
      in
      andthen (lookup reg_col_map att_col_key) (\<lambda>att_col_name.
      andthen (assign_from reg_df1 att_col_name att_col_name (fillna_str (str_num lib))) (\<lambda>reg_df2.
      andthen (lookup reg_col_map ''Email'') (\<lambda>email_col_reg.
      andthen (lookup zoom_col_map ''Email'') (\<lambda>email_col_zoom.
      andthen (lookup zoom_col_map ''Duration'') (\<lambda>duration_col_zoom.
      andthen (assign_from reg_df2 ''_normalized_email'' email_col_reg
                 (\<lambda>v. Str (normalize_email v))) (\<lambda>reg_df3.
      andthen (assign_from zoom_df ''_normalized_email'' email_col_zoom
                 (\<lambda>v. Str (normalize_email v))) (\<lambda>zoom_df1.
      andthen (lookup reg_col_map ''Training date'') (\<lambda>date_col.
      andthen (assign_from reg_df3 ''_parsed_date'' date_col
                 (parse_date (str_num lib) (to_datetime lib))) (\<lambda>reg_df4.
      andthen (scope_mask lib selected_date program_filter reg_col_map reg_df4) (\<lambda>date_mask.
      (let filtered_indices = indices_of date_mask;
           result1 = empty_result
             \<lparr>total_registrations := length filtered_indices,
              warnings := (if length filtered_indices = 0
                           then [no_registrations_warning selected_date program_filter]
                           else [])\<rparr>
       in
       if duration_col_zoom \<in> set (columns zoom_df1) then
         andthen (apply_all (parse_duration_to_minutes (str_num lib))
                    (map (\<lambda>r. r duration_col_zoom) (rows zoom_df1))) (\<lambda>minutes.
         (let zoom_dict = make_zoom_dict
                            (map (\<lambda>r. normalize_email (r email_col_zoom)) (rows zoom_df)) minutes
          in Inr \<lparr>p_reg_df = reg_df4, p_att_col_name = att_col_name,
                  p_filtered_indices = filtered_indices, p_zoom_dict = zoom_dict,
                  p_result = result1\<lparr>total_zoom_participants := length zoom_dict\<rparr>\<rparr>))
       else Inl (KeyError duration_col_zoom)))))))))))))"

text \<open>
  One pass of the loop of step 6 on the row \<open>idx\<close>. The cell read from
  \<open>_normalized_email\<close> is a string; any other value is neither empty nor a key of the
  dictionary of strings in a way that would change the outcome: it ends in the last branch
  of the source, or in the first.
\<close>

definition mark_row ::
  "(string \<times> pyfloat) list \<Rightarrow> rat \<Rightarrow> string \<Rightarrow> nat \<Rightarrow> dataframe \<times> attendance_result \<Rightarrow>
   dataframe \<times> attendance_result" where
  "mark_row zoom_dict min_duration att_col_name idx st =
     (case st of (reg_df, result) \<Rightarrow>
       (case at_get reg_df idx ''_normalized_email'' of
          Str email \<Rightarrow>
            if email = [] then
              (at_set reg_df idx att_col_name (Str ''N''),
               result\<lparr>not_found_in_zoom := not_found_in_zoom result + 1\<rparr>)
            else
              (case map_of zoom_dict email of
                 Some total_duration \<Rightarrow>
                   if fge total_duration min_duration then
                     (at_set reg_df idx att_col_name (Str ''Y''),
                      result\<lparr>matched_present := matched_present result + 1\<rparr>)
                   else
                     (at_set reg_df idx att_col_name (Str ''N''),
                      result\<lparr>matched_below_threshold := matched_below_threshold result + 1\<rparr>)
               | None \<Rightarrow>
                   (at_set reg_df idx att_col_name (Str ''N''),
                    result\<lparr>not_found_in_zoom := not_found_in_zoom result + 1\<rparr>))
        | _ \<Rightarrow>
            (at_set reg_df idx att_col_name (Str ''N''),
             result\<lparr>not_found_in_zoom := not_found_in_zoom result + 1\<rparr>)))"

fun mark_attendance ::
  "(string \<times> pyfloat) list \<Rightarrow> rat \<Rightarrow> string \<Rightarrow> nat list \<Rightarrow> dataframe \<times> attendance_result \<Rightarrow>
   dataframe \<times> attendance_result" where
  "mark_attendance zoom_dict min_duration att_col_name [] st = st"
| "mark_attendance zoom_dict min_duration att_col_name (idx # rest) st =
     mark_attendance zoom_dict min_duration att_col_name rest
       (mark_row zoom_dict min_duration att_col_name idx st)"

fun cell_strs :: "cell \<Rightarrow> string list" where
  "cell_strs (Str s) = (if s = [] then [] else [s])"
| "cell_strs _ = []"

text \<open>
  Step 6b. The set holds the truthy cells of \<open>_normalized_email\<close> at the rows in scope;
  it is only asked whether it has a given string, so its non-empty strings stand for it.
\<close>

definition reg_emails_for_date :: "dataframe \<Rightarrow> nat list \<Rightarrow> string list" where
  "reg_emails_for_date reg_df filtered_indices =
     concat (map (\<lambda>idx. cell_strs (at_get reg_df idx ''_normalized_email'')) filtered_indices)"

definition unmatched_of :: "(string \<times> pyfloat) list \<Rightarrow> string list \<Rightarrow> string list" where
  "unmatched_of zoom_dict reg_emails =
     sort (filter (\<lambda>email. email \<notin> set reg_emails) (map fst zoom_dict))"

definition replace_char :: "char \<Rightarrow> char \<Rightarrow> string \<Rightarrow> string" where
  "replace_char a b s = map (\<lambda>c. if c = a then b else c) s"

definition output_filename :: "date \<Rightarrow> int \<Rightarrow> string option \<Rightarrow> string" where
  "output_filename selected_date attendance_day program_filter =
     (let date_str = isoformat selected_date;
          day_str = ''Day'' @ show_int attendance_day;
          program_str = replace_char (CHR ''/'') (CHR ''-'') (replace_char (CHR '' '') (CHR ''_'')
                          (case active_filter program_filter of Some p \<Rightarrow> ''_'' @ p | None \<Rightarrow> []))
      in ''attendance_output_'' @ date_str @ ''_'' @ day_str @ program_str @ ''.csv'')"

text \<open>
  Steps 6 to 7 on the prepared state: the result object, with the roster table as the loop
  left it and the table handed to \<open>to_csv\<close>.
\<close>

definition mark_and_save ::
  "pylib \<Rightarrow> string \<Rightarrow> date \<Rightarrow> int \<Rightarrow> string option \<Rightarrow> rat \<Rightarrow> string option \<Rightarrow> prepared \<Rightarrow>
   attendance_result \<times> dataframe \<times> dataframe" where
  "mark_and_save lib reg_filepath selected_date attendance_day program_filter min_duration output_dir p =
     (case mark_attendance (p_zoom_dict p) min_duration (p_att_col_name p) (p_filtered_indices p)
             (p_reg_df p, p_result p) of
        (reg_df, result) \<Rightarrow>
          (let result2 = result\<lparr>unmatched_zoom_emails :=
                 unmatched_of (p_zoom_dict p) (reg_emails_for_date reg_df (p_filtered_indices p))\<rparr>;
               output_df = drop_columns [''_normalized_email'', ''_parsed_date''] reg_df;
               out_dir = (case output_dir of None \<Rightarrow> dirname lib reg_filepath | Some d \<Rightarrow> d);
               output_path = path_join lib out_dir
                               (output_filename selected_date attendance_day program_filter)
           in (case to_csv lib output_df output_path of
                 None \<Rightarrow> (result2\<lparr>output_filepath := output_path\<rparr>, reg_df, output_df)
               | Some e \<Rightarrow>
                   (result2\<lparr>errors := errors result2 @ [''Error saving output: '' @ e]\<rparr>,
                    reg_df, output_df))))"

text \<open>
  \<open>process_attendance\<close>: \<open>Inl\<close> is an exception that leaves the function; otherwise the
  result object, and the two tables when the run got past loading.
\<close>

definition process_attendance ::
  "pylib \<Rightarrow> string \<Rightarrow> string \<Rightarrow> date \<Rightarrow> int \<Rightarrow> string option \<Rightarrow> rat \<Rightarrow> string option \<Rightarrow>
   (string \<rightharpoonup> string) option \<Rightarrow> (string \<rightharpoonup> string) option \<Rightarrow>
   py_error + attendance_result \<times> (dataframe \<times> dataframe) option" where
  "process_attendance lib reg_filepath zoom_filepath selected_date attendance_day program_filter
     min_duration output_dir reg_col_map_override zoom_col_map_override =
     (case load_registration_csv lib reg_filepath reg_col_map_override of
        Inl err \<Rightarrow> Inr (empty_result\<lparr>errors := [''Registration CSV: '' @ err]\<rparr>, None)
      | Inr (reg_df, reg_col_map) \<Rightarrow>
     (case load_zoom_csv lib zoom_filepath zoom_col_map_override of
        Inl err \<Rightarrow> Inr (empty_result\<lparr>errors := [''Zoom CSV: '' @ err]\<rparr>, None)
      | Inr (zoom_df, zoom_col_map) \<Rightarrow>
          andthen (prepare lib selected_date attendance_day program_filter
                     reg_df reg_col_map zoom_df zoom_col_map) (\<lambda>p.
            (case mark_and_save lib reg_filepath selected_date attendance_day program_filter
                    min_duration output_dir p of
               (result, reg_df2, output_df) \<Rightarrow> Inr (result, Some (reg_df2, output_df))))))"

section \<open>Notions of the specification\<close>

text \<open>
  The column mapping a loader validates (the override when there is one, the detected
  mapping otherwise) and the required keys it lacks, in the words of the specification.
\<close>

definition resolved_map ::
  "(dataframe \<Rightarrow> (string \<rightharpoonup> string)) \<Rightarrow> (string \<rightharpoonup> string) option \<Rightarrow> dataframe \<Rightarrow>
   (string \<rightharpoonup> string)" where
  "resolved_map detect override df = (case override of Some m \<Rightarrow> m | None \<Rightarrow> detect df)"

definition missing_keys :: "string list \<Rightarrow> (string \<rightharpoonup> string) \<Rightarrow> string list" where
  "missing_keys required col_map = filter (\<lambda>k. k \<notin> dom col_map) required"

text \<open>The three verdicts of step 7 of the specification and the mark each one writes.\<close>

datatype verdict = Present | Below | NotFound

definition verdict_of :: "(string \<times> pyfloat) list \<Rightarrow> rat \<Rightarrow> cell \<Rightarrow> verdict" where
  "verdict_of zoom_dict min_duration identity =
     (case identity of
        Str e \<Rightarrow>
          if e = [] then NotFound
          else (case map_of zoom_dict e of
                  Some t \<Rightarrow> if fge t min_duration then Present else Below
                | None \<Rightarrow> NotFound)
      | _ \<Rightarrow> NotFound)"

definition mark_of :: "verdict \<Rightarrow> cell" where
  "mark_of v = (if v = Present then Str ''Y'' else Str ''N'')"

definition count_verdict ::
  "(string \<times> pyfloat) list \<Rightarrow> rat \<Rightarrow> dataframe \<Rightarrow> nat list \<Rightarrow> verdict \<Rightarrow> nat" where
  "count_verdict zoom_dict min_duration df idxs v =
     length (filter (\<lambda>i. verdict_of zoom_dict min_duration (at_get df i ''_normalized_email'') = v)
               idxs)"

text \<open>The roster mapping after step 1, and a roster row after steps 1 to 4.\<close>

definition roster_map :: "int \<Rightarrow> (string \<rightharpoonup> string) \<Rightarrow> (string \<rightharpoonup> string)" where
  "roster_map attendance_day reg_col_map0 =
     (if reg_col_map0 (att_col_key_of attendance_day) = None
      then reg_col_map0(att_col_key_of attendance_day \<mapsto>
             ''Attendance - Day '' @ show_int attendance_day)
      else reg_col_map0)"

definition work_row ::
  "(rat \<Rightarrow> string) \<Rightarrow> (string \<Rightarrow> fb_result) \<Rightarrow> bool \<Rightarrow> string \<Rightarrow> string \<Rightarrow> string \<Rightarrow> string \<Rightarrow>
   (string \<Rightarrow> cell) \<Rightarrow> (string \<Rightarrow> cell)" where
  "work_row sn td unmapped new_name att ec dc r =
     (let r1 = (if unmapped then r(new_name := Str []) else r);
          r2 = r1(att := fillna_str sn (r1 att));
          r3 = r2(''_normalized_email'' := Str (normalize_email (r2 ec)))
      in r3(''_parsed_date'' := parse_date sn td (r3 dc)))"

text \<open>The counter a verdict increments.\<close>

definition bump :: "verdict \<Rightarrow> attendance_result \<Rightarrow> attendance_result" where
  "bump v result =
     (case v of
        Present \<Rightarrow> result\<lparr>matched_present := matched_present result + 1\<rparr>
      | Below \<Rightarrow> result\<lparr>matched_below_threshold := matched_below_threshold result + 1\<rparr>
      | NotFound \<Rightarrow> result\<lparr>not_found_in_zoom := not_found_in_zoom result + 1\<rparr>)"

text \<open>
  A row of the prepared roster is in scope when its parsed date is the selected date and,
  if the program filter applies, its program field, as a string and stripped, is the filter.
\<close>

definition in_scope ::
  "pylib \<Rightarrow> date \<Rightarrow> string option \<Rightarrow> (string \<rightharpoonup> string) \<Rightarrow> (string \<Rightarrow> cell) \<Rightarrow> bool" where
  "in_scope lib selected_date program_filter reg_col_map row =
     (row ''_parsed_date'' = DateV selected_date \<and>
      (case active_filter program_filter of
         None \<Rightarrow> True
       | Some f \<Rightarrow>
           (case reg_col_map ''Version'' of
              None \<Rightarrow> True
            | Some version_col \<Rightarrow> py_strip (py_str (str_num lib) (row version_col)) = f)))"

text \<open>The path the output is written to.\<close>

definition output_path_of ::
  "pylib \<Rightarrow> string \<Rightarrow> date \<Rightarrow> int \<Rightarrow> string option \<Rightarrow> string option \<Rightarrow> string" where
  "output_path_of lib reg_filepath selected_date attendance_day program_filter output_dir =
     path_join lib (case output_dir of None \<Rightarrow> dirname lib reg_filepath | Some d \<Rightarrow> d)
       (output_filename selected_date attendance_day program_filter)"

text \<open>The table and the result object when the loop of step 6 ends, and after step 6b.\<close>

definition after_loop :: "prepared \<Rightarrow> rat \<Rightarrow> dataframe \<times> attendance_result" where
  "after_loop p min_duration =
     mark_attendance (p_zoom_dict p) min_duration (p_att_col_name p) (p_filtered_indices p)
       (p_reg_df p, p_result p)"

definition statistics :: "prepared \<Rightarrow> rat \<Rightarrow> attendance_result" where
  "statistics p min_duration =
     (snd (after_loop p min_duration))\<lparr>unmatched_zoom_emails :=
        unmatched_of (p_zoom_dict p)
          (reg_emails_for_date (fst (after_loop p min_duration)) (p_filtered_indices p))\<rparr>"

text \<open>
  The prepared state of a run with a program filter that is not applied, from that of the
  run without a filter: the warning names the filter, nothing else differs.
\<close>

definition with_warning_for :: "date \<Rightarrow> string option \<Rightarrow> prepared \<Rightarrow> prepared" where
  "with_warning_for selected_date program_filter p =
     p\<lparr>p_result := (p_result p)\<lparr>warnings :=
         (if p_filtered_indices p = []
          then [no_registrations_warning selected_date program_filter] else [])\<rparr>\<rparr>"

section \<open>A small run\<close>

definition row_of :: "(string \<times> cell) list \<Rightarrow> string \<Rightarrow> cell" where
  "row_of al c = (case map_of al c of Some v \<Rightarrow> v | None \<Rightarrow> Missing)"

definition ex_roster :: dataframe where
  "ex_roster =
     \<lparr>columns = [''Email'', ''Training date'', ''Attendance - Day 1''],
      rows = [row_of [(''Email'', Str ''Alice@Example.COM ''), (''Training date'', Str ''15-01-2025'')],
              row_of [(''Email'', Str ''diana@example.com''), (''Training date'', Str ''2025-01-15'')],
              row_of [(''Training date'', Str ''15/01/2025'')],
              row_of [(''Email'', Str ''zed@example.com''), (''Training date'', Str ''16-01-2025''),
                      (''Attendance - Day 1'', Str ''Y'')]]\<rparr>"

definition ex_zoom :: dataframe where
  "ex_zoom =
     \<lparr>columns = [''User Email'', ''Duration (Minutes)''],
      rows = [row_of [(''User Email'', Str ''alice@example.com''), (''Duration (Minutes)'', Str ''45'')],
              row_of [(''User Email'', Str ''ALICE@example.com''), (''Duration (Minutes)'', Str ''30'')],
              row_of [(''User Email'', Str ''diana@example.com''), (''Duration (Minutes)'', Str ''55'')],
              row_of [(''User Email'', Str ''unknown@random.com''), (''Duration (Minutes)'', Str ''10'')]]\<rparr>"

definition ex_zoom_no_duration :: dataframe where
  "ex_zoom_no_duration =
     \<lparr>columns = [''User Email''],
      rows = [row_of [(''User Email'', Str ''alice@example.com'')]]\<rparr>"

definition ex_lib :: pylib where
  "ex_lib =
     \<lparr>read_csv = (\<lambda>path enc.
         if path = ''roster.csv'' then ReadOk ex_roster
         else if path = ''zoom.csv'' then ReadOk ex_zoom
         else if path = ''zoom_no_duration.csv'' then ReadOk ex_zoom_no_duration
         else ReadError ''No such file''),
      to_csv = (\<lambda>df path. None),
      to_datetime = (\<lambda>s. FbRaise),
      str_num = (\<lambda>r. []),
      dirname = (\<lambda>path. ''.''),
      path_join = (\<lambda>a b. a @ ''/'' @ b)\<rparr>"

text \<open>
  The mappings detected for the two tables, the result of the small run, and the library
  with a writer that always fails.
\<close>

definition ex_roster_map :: "string \<rightharpoonup> string" where
  "ex_roster_map = [''Email'' \<mapsto> ''Email'', ''Training date'' \<mapsto> ''Training date'',
                    ''Attendance - Day 1'' \<mapsto> ''Attendance - Day 1'']"

definition ex_zoom_map :: "string \<rightharpoonup> string" where
  "ex_zoom_map = [''Email'' \<mapsto> ''User Email'', ''Duration'' \<mapsto> ''Duration (Minutes)'']"

definition ex_result :: attendance_result where
  "ex_result =
     \<lparr>total_registrations = 3, total_zoom_participants = 3, matched_present = 1,
      matched_below_threshold = 1, not_found_in_zoom = 1,
      unmatched_zoom_emails = [''unknown@random.com''],
      output_filepath = ''./attendance_output_2025-01-15_Day1.csv'',
      errors = [], warnings = []\<rparr>"

definition ex_lib_fail :: pylib where
  "ex_lib_fail = ex_lib\<lparr>to_csv := \<lambda>df path. Some ''Permission denied''\<rparr>"

section \<open>Loading\<close>

lemmas ex_defs = ex_lib_def ex_roster_def ex_zoom_def ex_zoom_no_duration_def row_of_def
lemmas str_defs = py_strip_def is_space_def space_chars_def py_lower_def lower_char_def

lemma missing_keys_filter: "filter (\<lambda>r. col_map r = None) ks = missing_keys ks col_map"
  by (simp add: missing_keys_def dom_def)

lemma load_registration_csv_eq:
  "read_csv_safe lib filepath = Inr df \<Longrightarrow>
   load_registration_csv lib filepath ov =
     (if missing_keys [''Email'', ''Training date'']
           (resolved_map detect_registration_columns ov df) = []
      then Inr (df, resolved_map detect_registration_columns ov df)
      else Inl (''Missing required columns: '' @
                py_join '', '' (missing_keys [''Email'', ''Training date'']
                                 (resolved_map detect_registration_columns ov df))))"
  unfolding load_registration_csv_def resolved_map_def Let_def missing_keys_filter
  by (simp split: option.splits)

lemma load_zoom_csv_eq:
  "read_csv_safe lib filepath = Inr df \<Longrightarrow>
   load_zoom_csv lib filepath ov =
     (if missing_keys [''Email'', ''Duration''] (resolved_map detect_zoom_columns ov df) = []
      then Inr (df, resolved_map detect_zoom_columns ov df)
      else Inl (''Missing required columns in Zoom CSV: '' @
                py_join '', '' (missing_keys [''Email'', ''Duration'']
                                 (resolved_map detect_zoom_columns ov df))))"
  unfolding load_zoom_csv_def resolved_map_def Let_def missing_keys_filter
  by (simp split: option.splits)

text \<open>
  C6. Once a table has been read, a loader fails exactly when a required standardized key
  is absent from the mapping (detected, or overridden), its message lists exactly those
  keys, and \<open>process_attendance\<close> then returns the empty result with that one error and no
  table; when no key is missing the loader returns the table as read, with the mapping.
\<close>

theorem loader_missing_columns:
  assumes reg: "read_csv_safe lib reg_filepath = Inr reg_df"
    and zoom: "read_csv_safe lib zoom_filepath = Inr zoom_df"
  shows
    "(let reg_map = resolved_map detect_registration_columns reg_override reg_df;
          zoom_map = resolved_map detect_zoom_columns zoom_override zoom_df;
          reg_missing = missing_keys [''Email'', ''Training date''] reg_map;
          zoom_missing = missing_keys [''Email'', ''Duration''] zoom_map;
          run = process_attendance lib reg_filepath zoom_filepath selected_date attendance_day
                  program_filter min_duration output_dir reg_override zoom_override
      in (reg_missing \<noteq> [] \<longrightarrow>
            load_registration_csv lib reg_filepath reg_override =
              Inl (''Missing required columns: '' @ py_join '', '' reg_missing) \<and>
            run = Inr (empty_result\<lparr>errors :=
                    [''Registration CSV: Missing required columns: ''
                     @ py_join '', '' reg_missing]\<rparr>, None)) \<and>
         (reg_missing = [] \<longrightarrow>
            load_registration_csv lib reg_filepath reg_override = Inr (reg_df, reg_map)) \<and>
         (zoom_missing \<noteq> [] \<longrightarrow>
            load_zoom_csv lib zoom_filepath zoom_override =
              Inl (''Missing required columns in Zoom CSV: '' @ py_join '', '' zoom_missing) \<and>
            (reg_missing = [] \<longrightarrow>
               run = Inr (empty_result\<lparr>errors :=
                    [''Zoom CSV: Missing required columns in Zoom CSV: ''
                     @ py_join '', '' zoom_missing]\<rparr>, None))) \<and>
         (zoom_missing = [] \<longrightarrow>
            load_zoom_csv lib zoom_filepath zoom_override = Inr (zoom_df, zoom_map)))"
  unfolding Let_def process_attendance_def
  by (simp add: load_registration_csv_eq[OF reg] load_zoom_csv_eq[OF zoom])

theorem loader_missing_columns_witness:
  "read_csv_safe ex_lib ''roster.csv'' = Inr (strip_columns ex_roster) \<and>
   read_csv_safe ex_lib ''zoom_no_duration.csv'' = Inr (strip_columns ex_zoom_no_duration) \<and>
   load_registration_csv ex_lib ''roster.csv'' None =
     Inr (strip_columns ex_roster, detect_registration_columns (strip_columns ex_roster)) \<and>
   load_zoom_csv ex_lib ''zoom_no_duration.csv'' None =
     Inl ''Missing required columns in Zoom CSV: Duration'' \<and>
   process_attendance ex_lib ''roster.csv'' ''zoom_no_duration.csv'' (Date 2025 1 15) 1 None 60 None None None =
     Inr (empty_result\<lparr>errors := [''Zoom CSV: Missing required columns in Zoom CSV: Duration'']\<rparr>, None) \<and>
   load_registration_csv ex_lib ''roster.csv'' (Some [''Email'' \<mapsto> ''Email'']) =
     Inl ''Missing required columns: Training date''"
proof -
  have h1: "read_csv_safe ex_lib ''roster.csv'' = Inr (strip_columns ex_roster)"
    by (simp add: read_csv_safe_def ex_lib_def)
  have h2: "read_csv_safe ex_lib ''zoom_no_duration.csv'' = Inr (strip_columns ex_zoom_no_duration)"
    by (simp add: read_csv_safe_def ex_lib_def)
  have m1: "missing_keys [''Email'', ''Training date''] (detect_registration_columns (strip_columns ex_roster)) = []"
    by (simp add: missing_keys_def detect_registration_columns_def detect_registration_step_def strip_columns_def ex_roster_def str_defs dom_def)
  have m2: "missing_keys [''Email'', ''Duration''] (detect_zoom_columns (strip_columns ex_zoom_no_duration)) = [''Duration'']"
    by (simp add: missing_keys_def detect_zoom_columns_def detect_zoom_step_def strip_columns_def ex_zoom_no_duration_def str_defs dom_def)
  have m3: "missing_keys [''Email'', ''Training date''] [''Email'' \<mapsto> ''Email''] = [''Training date'']"
    by (simp add: missing_keys_def)
  show ?thesis
    using loader_missing_columns[OF h1 h2, of None None "Date 2025 1 15" 1 None 60 None]
      loader_missing_columns[OF h1 h2, of "Some [''Email'' \<mapsto> ''Email'']" None "Date 2025 1 15" 1 None 60 None]
    by (simp add: Let_def resolved_map_def m1 m2 m3 h1 h2)
qed

section \<open>The steps before the loop\<close>

lemma att_col_key_neq [simp]:
  "att_col_key_of d \<noteq> ''Email''" "att_col_key_of d \<noteq> ''Training date''"
  "att_col_key_of d \<noteq> ''Version''"
  "''Email'' \<noteq> att_col_key_of d" "''Training date'' \<noteq> att_col_key_of d"
  "''Version'' \<noteq> att_col_key_of d"
  by (simp_all add: att_col_key_of_def)

lemma roster_map_other [simp]:
  "k \<noteq> att_col_key_of d \<Longrightarrow> roster_map d m k = m k"
  by (simp add: roster_map_def)

lemma andthen_Inr_iff: "andthen x f = Inr y \<longleftrightarrow> (\<exists>a. x = Inr a \<and> f a = Inr y)"
  by (cases x) (simp_all add: andthen_def)

lemma lookup_Inr_iff: "lookup m k = Inr v \<longleftrightarrow> m k = Some v"
  by (simp add: lookup_def split: option.splits)

lemma assign_from_Inr_iff:
  "assign_from df dst src f = Inr df' \<longleftrightarrow>
   src \<in> set (columns df) \<and>
   df' = df\<lparr>columns := add_column dst (columns df), rows := map (\<lambda>r. r(dst := f (r src))) (rows df)\<rparr>"
  by (auto simp: assign_from_def)

lemma prepare_Inr:
  assumes "prepare lib selected_date attendance_day program_filter reg_df0 reg_col_map0 zoom_df zoom_col_map = Inr p"
  shows "\<exists>att ec dc ezc dzc row_mask minutes.
     roster_map attendance_day reg_col_map0 (att_col_key_of attendance_day) = Some att \<and>
     reg_col_map0 ''Email'' = Some ec \<and> reg_col_map0 ''Training date'' = Some dc \<and>
     zoom_col_map ''Email'' = Some ezc \<and> zoom_col_map ''Duration'' = Some dzc \<and>
     p_att_col_name p = att \<and>
     rows (p_reg_df p) =
       map (work_row (str_num lib) (to_datetime lib) (reg_col_map0 (att_col_key_of attendance_day) = None)
              (''Attendance - Day '' @ show_int attendance_day) att ec dc) (rows reg_df0) \<and>
     columns (p_reg_df p) =
       add_column ''_parsed_date'' (add_column ''_normalized_email'' (add_column att
         (if reg_col_map0 (att_col_key_of attendance_day) = None
          then add_column (''Attendance - Day '' @ show_int attendance_day) (columns reg_df0)
          else columns reg_df0))) \<and>
     scope_mask lib selected_date program_filter (roster_map attendance_day reg_col_map0) (p_reg_df p) = Inr row_mask \<and>
     p_filtered_indices p = indices_of row_mask \<and>
     ezc \<in> set (columns zoom_df) \<and>
     apply_all (parse_duration_to_minutes (str_num lib))
        (map (\<lambda>r. (r(''_normalized_email'' := Str (normalize_email (r ezc)))) dzc) (rows zoom_df)) = Inr minutes \<and>
     p_zoom_dict p = make_zoom_dict (map (\<lambda>r. normalize_email (r ezc)) (rows zoom_df)) minutes \<and>
     p_result p = empty_result
        \<lparr>total_registrations := length (indices_of row_mask),
         warnings := (if length (indices_of row_mask) = 0
                      then [no_registrations_warning selected_date program_filter] else []),
         total_zoom_participants := length (p_zoom_dict p)\<rparr>"
proof -
  define key where "key = att_col_key_of attendance_day"
  define new where "new = ''Attendance - Day '' @ show_int attendance_day"
  define um where "um = (reg_col_map0 key = None)"
  define df1 where "df1 = (if um then assign_const reg_df0 new (Str []) else reg_df0)"
  define rmap where "rmap = roster_map attendance_day reg_col_map0"
  have rmap_eq: "rmap = (if um then reg_col_map0(key \<mapsto> new) else reg_col_map0)"
    by (simp add: rmap_def roster_map_def um_def key_def new_def)
  from assms obtain att df2 ec ezc dzc df3 zdf1 dc df4 row_mask where
    a1: "rmap key = Some att"
    and a2: "assign_from df1 att att (fillna_str (str_num lib)) = Inr df2"
    and a3: "rmap ''Email'' = Some ec"
    and a4: "zoom_col_map ''Email'' = Some ezc"
    and a5: "zoom_col_map ''Duration'' = Some dzc"
    and a6: "assign_from df2 ''_normalized_email'' ec (\<lambda>v. Str (normalize_email v)) = Inr df3"
    and a7: "assign_from zoom_df ''_normalized_email'' ezc (\<lambda>v. Str (normalize_email v)) = Inr zdf1"
    and a8: "rmap ''Training date'' = Some dc"
    and a9: "assign_from df3 ''_parsed_date'' dc (parse_date (str_num lib) (to_datetime lib)) = Inr df4"
    and a10: "scope_mask lib selected_date program_filter rmap df4 = Inr row_mask"
    and rest: "(if dzc \<in> set (columns zdf1) then
         andthen (apply_all (parse_duration_to_minutes (str_num lib))
                    (map (\<lambda>r. r dzc) (rows zdf1))) (\<lambda>minutes.
           Inr \<lparr>p_reg_df = df4, p_att_col_name = att,
                  p_filtered_indices = indices_of row_mask,
                  p_zoom_dict = make_zoom_dict
                            (map (\<lambda>r. normalize_email (r ezc)) (rows zoom_df)) minutes,
                  p_result = empty_result
             \<lparr>total_registrations := length (indices_of row_mask),
              warnings := (if length (indices_of row_mask) = 0
                           then [no_registrations_warning selected_date program_filter]
                           else [])\<rparr>\<lparr>total_zoom_participants := length (make_zoom_dict
                            (map (\<lambda>r. normalize_email (r ezc)) (rows zoom_df)) minutes)\<rparr>\<rparr>)
       else Inl (KeyError dzc)) = Inr p"
    unfolding prepare_def Let_def andthen_Inr_iff lookup_Inr_iff
      key_def[symmetric] new_def[symmetric] um_def[symmetric] df1_def[symmetric] rmap_eq[symmetric]
    by blast
  from rest obtain minutes where
    m1: "apply_all (parse_duration_to_minutes (str_num lib)) (map (\<lambda>r. r dzc) (rows zdf1)) = Inr minutes"
    and p_eq: "p = \<lparr>p_reg_df = df4, p_att_col_name = att,
                  p_filtered_indices = indices_of row_mask,
                  p_zoom_dict = make_zoom_dict
                            (map (\<lambda>r. normalize_email (r ezc)) (rows zoom_df)) minutes,
                  p_result = empty_result
             \<lparr>total_registrations := length (indices_of row_mask),
              warnings := (if length (indices_of row_mask) = 0
                           then [no_registrations_warning selected_date program_filter]
                           else [])\<rparr>\<lparr>total_zoom_participants := length (make_zoom_dict
                            (map (\<lambda>r. normalize_email (r ezc)) (rows zoom_df)) minutes)\<rparr>\<rparr>"
    by (auto simp: andthen_Inr_iff split: if_splits)
  have rows4: "rows df4 = map (work_row (str_num lib) (to_datetime lib) um new att ec dc) (rows reg_df0)"
    using a2 a6 a9
    by (auto simp: assign_from_Inr_iff df1_def assign_const_def work_row_def Let_def)
  have cols4: "columns df4 = add_column ''_parsed_date'' (add_column ''_normalized_email'' (add_column att
         (if um then add_column new (columns reg_df0) else columns reg_df0)))"
    using a2 a6 a9
    by (auto simp: assign_from_Inr_iff df1_def assign_const_def)
  have z: "ezc \<in> set (columns zoom_df)" "rows zdf1 = map (\<lambda>r. r(''_normalized_email'' := Str (normalize_email (r ezc)))) (rows zoom_df)"
    using a7 by (auto simp: assign_from_Inr_iff)
  have m2: "apply_all (parse_duration_to_minutes (str_num lib))
        (map (\<lambda>r. (r(''_normalized_email'' := Str (normalize_email (r ezc)))) dzc) (rows zoom_df)) = Inr minutes"
    using m1 by (simp add: z comp_def)
  have e: "reg_col_map0 ''Email'' = Some ec" "reg_col_map0 ''Training date'' = Some dc"
    using a3 a8 by (simp_all add: rmap_def)
  show ?thesis
    using a1 e a4 a5 rows4 cols4 a10 z(1) m2
    unfolding p_eq rmap_def key_def new_def um_def
    by (intro exI[of _ att] exI[of _ ec] exI[of _ dc] exI[of _ ezc] exI[of _ dzc] exI[of _ row_mask] exI[of _ minutes]) simp
qed

section \<open>The marking loop\<close>

lemma mark_row_eq:
  "mark_row zd md att idx (df, res) =
     (at_set df idx att (mark_of (verdict_of zd md (at_get df idx ''_normalized_email''))),
      bump (verdict_of zd md (at_get df idx ''_normalized_email'')) res)"
  by (simp add: mark_row_def verdict_of_def mark_of_def bump_def split: cell.splits option.splits)

lemma at_set_simps [simp]:
  "columns (at_set df idx c v) = columns df"
  "length (rows (at_set df idx c v)) = length (rows df)"
  by (simp_all add: at_set_def)

lemma at_set_nth:
  "i < length (rows df) \<Longrightarrow>
   rows (at_set df idx c v) ! i = (if i = idx then (rows df ! i)(c := v) else rows df ! i)"
  by (simp add: at_set_def nth_list_update)

lemma at_get_at_set_other:
  "i \<noteq> idx \<Longrightarrow> at_get (at_set df idx c v) i n = at_get df i n"
  by (simp add: at_get_def at_set_def)

lemma count_verdict_at_set:
  "idx \<notin> set idxs \<Longrightarrow> count_verdict zd md (at_set df idx c v) idxs w = count_verdict zd md df idxs w"
proof -
  assume n: "idx \<notin> set idxs"
  have "\<And>x. x \<in> set idxs \<Longrightarrow> at_get (at_set df idx c v) x ''_normalized_email'' = at_get df x ''_normalized_email''"
    using n by (intro at_get_at_set_other) auto
  then show ?thesis
    unfolding count_verdict_def by (intro arg_cong[where f=length] filter_cong) simp_all
qed

lemma bump_fields [simp]:
  "total_registrations (bump v r) = total_registrations r"
  "total_zoom_participants (bump v r) = total_zoom_participants r"
  "unmatched_zoom_emails (bump v r) = unmatched_zoom_emails r"
  "output_filepath (bump v r) = output_filepath r"
  "errors (bump v r) = errors r"
  "warnings (bump v r) = warnings r"
  "matched_present (bump v r) = matched_present r + (if v = Present then 1 else 0)"
  "matched_below_threshold (bump v r) = matched_below_threshold r + (if v = Below then 1 else 0)"
  "not_found_in_zoom (bump v r) = not_found_in_zoom r + (if v = NotFound then 1 else 0)"
  by (cases v; simp add: bump_def)+

lemma mark_attendance_result:
  assumes "distinct idxs" and "\<forall>i\<in>set idxs. i < length (rows df)"
    and "mark_attendance zd md att idxs (df, res) = (df', res')"
  shows "columns df' = columns df \<and> length (rows df') = length (rows df) \<and>
         (\<forall>i<length (rows df). rows df' ! i =
             (if i \<in> set idxs
              then (rows df ! i)(att := mark_of (verdict_of zd md (at_get df i ''_normalized_email'')))
              else rows df ! i)) \<and>
         matched_present res' = matched_present res + count_verdict zd md df idxs Present \<and>
         matched_below_threshold res' = matched_below_threshold res + count_verdict zd md df idxs Below \<and>
         not_found_in_zoom res' = not_found_in_zoom res + count_verdict zd md df idxs NotFound \<and>
         total_registrations res' = total_registrations res \<and>
         total_zoom_participants res' = total_zoom_participants res \<and>
         unmatched_zoom_emails res' = unmatched_zoom_emails res \<and>
         output_filepath res' = output_filepath res \<and>
         errors res' = errors res \<and> warnings res' = warnings res"
  using assms
proof (induction idxs arbitrary: df res)
  case Nil
  then show ?case by (simp add: count_verdict_def)
next
  case (Cons idx rest)
  let ?v = "verdict_of zd md (at_get df idx ''_normalized_email'')"
  let ?df1 = "at_set df idx att (mark_of ?v)"
  from Cons.prems have d: "distinct rest" "idx \<notin> set rest" "idx < length (rows df)"
    and b: "\<forall>i\<in>set rest. i < length (rows ?df1)"
    and run: "mark_attendance zd md att rest (?df1, bump ?v res) = (df', res')"
    by (simp_all add: mark_row_eq)
  note IH = Cons.IH[OF d(1) b run]
  have cnt: "\<And>w. count_verdict zd md df (idx # rest) w =
                 (if ?v = w then 1 else 0) + count_verdict zd md df rest w"
    by (simp add: count_verdict_def)
  have rows: "\<forall>i<length (rows df). rows df' ! i =
             (if i \<in> set (idx # rest)
              then (rows df ! i)(att := mark_of (verdict_of zd md (at_get df i ''_normalized_email'')))
              else rows df ! i)"
  proof (intro allI impI)
    fix i assume i: "i < length (rows df)"
    with IH have "rows df' ! i =
             (if i \<in> set rest
              then (rows ?df1 ! i)(att := mark_of (verdict_of zd md (at_get ?df1 i ''_normalized_email'')))
              else rows ?df1 ! i)" by simp
    then show "rows df' ! i =
             (if i \<in> set (idx # rest)
              then (rows df ! i)(att := mark_of (verdict_of zd md (at_get df i ''_normalized_email'')))
              else rows df ! i)"
      using i d(2) by (auto simp: at_set_nth at_get_at_set_other at_get_def)
  qed
  show ?case
    using IH rows by (auto simp: cnt count_verdict_at_set[OF d(2)])
qed

lemma indices_of_props:
  "distinct (indices_of m)"
  "set (indices_of m) = {i. i < length m \<and> m ! i}"
  by (auto simp: indices_of_def)


section \<open>Scope, and the run as a whole\<close>

lemma map2_conj_map: "map2 (\<and>) (map f xs) (map g xs) = map (\<lambda>x. f x \<and> g x) xs"
  by (induction xs) simp_all

lemma scope_mask_Inr:
  assumes "scope_mask lib selected_date program_filter reg_col_map df = Inr row_mask"
  shows "row_mask = map (in_scope lib selected_date program_filter reg_col_map) (rows df)"
proof (cases "active_filter program_filter")
  case None
  with assms show ?thesis by (auto simp: scope_mask_def in_scope_def[abs_def])
next
  case (Some f)
  show ?thesis
  proof (cases "reg_col_map ''Version''")
    case None
    with Some assms show ?thesis by (auto simp: scope_mask_def in_scope_def[abs_def])
  next
    case (Some vc)
    with \<open>active_filter program_filter = Some f\<close> assms show ?thesis
      by (auto simp: scope_mask_def in_scope_def[abs_def] andthen_def lookup_def map2_conj_map
               split: if_splits)
  qed
qed

lemma indices_of_map:
  "set (indices_of (map P xs)) = {i. i < length xs \<and> P (xs ! i)}"
  "length (indices_of (map P xs)) = card {i. i < length xs \<and> P (xs ! i)}"
proof -
  show s: "set (indices_of (map P xs)) = {i. i < length xs \<and> P (xs ! i)}"
    by (auto simp: indices_of_props)
  show "length (indices_of (map P xs)) = card {i. i < length xs \<and> P (xs ! i)}"
    using distinct_card[OF indices_of_props(1), of "map P xs"] s by simp
qed

lemma process_attendance_loaded:
  assumes "load_registration_csv lib reg_filepath reg_override = Inr (reg_df, reg_col_map)"
    and "load_zoom_csv lib zoom_filepath zoom_override = Inr (zoom_df, zoom_col_map)"
  shows "process_attendance lib reg_filepath zoom_filepath selected_date attendance_day
           program_filter min_duration output_dir reg_override zoom_override =
         andthen (prepare lib selected_date attendance_day program_filter
                    reg_df reg_col_map zoom_df zoom_col_map)
           (\<lambda>p. case mark_and_save lib reg_filepath selected_date attendance_day program_filter
                        min_duration output_dir p of
                   (result, reg_df2, output_df) \<Rightarrow> Inr (result, Some (reg_df2, output_df)))"
  using assms by (simp add: process_attendance_def split_def)

lemma mark_and_save_facts:
  assumes prep: "prepare lib selected_date attendance_day program_filter reg_df0 reg_col_map0
                   zoom_df zoom_col_map = Inr p"
    and run: "mark_and_save lib reg_filepath selected_date attendance_day program_filter
                min_duration output_dir p = (res, d, out)"
  shows "columns d = columns (p_reg_df p)"
    and "length (rows d) = length (rows (p_reg_df p))"
    and "\<forall>i<length (rows (p_reg_df p)). rows d ! i =
           (if i \<in> set (p_filtered_indices p)
            then (rows (p_reg_df p) ! i)(p_att_col_name p :=
                   mark_of (verdict_of (p_zoom_dict p) min_duration
                              (at_get (p_reg_df p) i ''_normalized_email'')))
            else rows (p_reg_df p) ! i)"
    and "matched_present res =
           count_verdict (p_zoom_dict p) min_duration (p_reg_df p) (p_filtered_indices p) Present"
    and "matched_below_threshold res =
           count_verdict (p_zoom_dict p) min_duration (p_reg_df p) (p_filtered_indices p) Below"
    and "not_found_in_zoom res =
           count_verdict (p_zoom_dict p) min_duration (p_reg_df p) (p_filtered_indices p) NotFound"
    and "total_registrations res = length (p_filtered_indices p)"
    and "total_zoom_participants res = length (p_zoom_dict p)"
    and "unmatched_zoom_emails res =
           unmatched_of (p_zoom_dict p) (reg_emails_for_date d (p_filtered_indices p))"
    and "warnings res = (if p_filtered_indices p = []
                         then [no_registrations_warning selected_date program_filter] else [])"
    and "out = drop_columns [''_normalized_email'', ''_parsed_date''] d"
    and "output_filepath res =
           (case to_csv lib out (output_path_of lib reg_filepath selected_date attendance_day
                                   program_filter output_dir) of
              None \<Rightarrow> output_path_of lib reg_filepath selected_date attendance_day
                        program_filter output_dir
            | Some e \<Rightarrow> [])"
    and "errors res =
           (case to_csv lib out (output_path_of lib reg_filepath selected_date attendance_day
                                   program_filter output_dir) of
              None \<Rightarrow> []
            | Some e \<Rightarrow> [''Error saving output: '' @ e])"
proof -
  from prepare_Inr[OF prep] obtain row_mask where
    sm: "scope_mask lib selected_date program_filter (roster_map attendance_day reg_col_map0)
           (p_reg_df p) = Inr row_mask"
    and fi: "p_filtered_indices p = indices_of row_mask"
    and pr: "p_result p = empty_result
        \<lparr>total_registrations := length (indices_of row_mask),
         warnings := (if length (indices_of row_mask) = 0
                      then [no_registrations_warning selected_date program_filter] else []),
         total_zoom_participants := length (p_zoom_dict p)\<rparr>"
    by blast
  have len: "length row_mask = length (rows (p_reg_df p))"
    using scope_mask_Inr[OF sm] by simp
  have dist: "distinct (p_filtered_indices p)"
    and bound: "\<forall>i\<in>set (p_filtered_indices p). i < length (rows (p_reg_df p))"
    using len by (simp_all add: fi indices_of_props)
  obtain d' res' where loop: "mark_attendance (p_zoom_dict p) min_duration (p_att_col_name p)
      (p_filtered_indices p) (p_reg_df p, p_result p) = (d', res')"
    by (cases "mark_attendance (p_zoom_dict p) min_duration (p_att_col_name p)
      (p_filtered_indices p) (p_reg_df p, p_result p)") auto
  note L = mark_attendance_result[OF dist bound loop]
  from run loop have d: "d = d'"
    and o: "out = drop_columns [''_normalized_email'', ''_parsed_date''] d'"
    by (auto simp: mark_and_save_def Let_def split: option.splits)
  from run loop have r: "res =
      (case to_csv lib out (output_path_of lib reg_filepath selected_date attendance_day
                              program_filter output_dir) of
         None \<Rightarrow> res'\<lparr>unmatched_zoom_emails := unmatched_of (p_zoom_dict p)
                    (reg_emails_for_date d' (p_filtered_indices p)),
                  output_filepath := output_path_of lib reg_filepath selected_date attendance_day
                                       program_filter output_dir\<rparr>
       | Some e \<Rightarrow> res'\<lparr>unmatched_zoom_emails := unmatched_of (p_zoom_dict p)
                    (reg_emails_for_date d' (p_filtered_indices p)),
                  errors := errors res' @ [''Error saving output: '' @ e]\<rparr>)"
    by (auto simp: mark_and_save_def Let_def output_path_of_def split: option.splits)
  show "columns d = columns (p_reg_df p)" "length (rows d) = length (rows (p_reg_df p))"
    using L d by simp_all
  show "\<forall>i<length (rows (p_reg_df p)). rows d ! i =
           (if i \<in> set (p_filtered_indices p)
            then (rows (p_reg_df p) ! i)(p_att_col_name p :=
                   mark_of (verdict_of (p_zoom_dict p) min_duration
                              (at_get (p_reg_df p) i ''_normalized_email'')))
            else rows (p_reg_df p) ! i)"
    using L d by simp
  show "out = drop_columns [''_normalized_email'', ''_parsed_date''] d"
    using o d by simp
  show "matched_present res =
           count_verdict (p_zoom_dict p) min_duration (p_reg_df p) (p_filtered_indices p) Present"
    "matched_below_threshold res =
           count_verdict (p_zoom_dict p) min_duration (p_reg_df p) (p_filtered_indices p) Below"
    "not_found_in_zoom res =
           count_verdict (p_zoom_dict p) min_duration (p_reg_df p) (p_filtered_indices p) NotFound"
    "total_registrations res = length (p_filtered_indices p)"
    "total_zoom_participants res = length (p_zoom_dict p)"
    "warnings res = (if p_filtered_indices p = []
                         then [no_registrations_warning selected_date program_filter] else [])"
    using L by (simp_all add: r pr fi empty_result_def split: option.splits)
  show "unmatched_zoom_emails res =
           unmatched_of (p_zoom_dict p) (reg_emails_for_date d (p_filtered_indices p))"
    by (simp add: r d split: option.splits)
  show "output_filepath res =
           (case to_csv lib out (output_path_of lib reg_filepath selected_date attendance_day
                                   program_filter output_dir) of
              None \<Rightarrow> output_path_of lib reg_filepath selected_date attendance_day
                        program_filter output_dir
            | Some e \<Rightarrow> [])"
    "errors res =
           (case to_csv lib out (output_path_of lib reg_filepath selected_date attendance_day
                                   program_filter output_dir) of
              None \<Rightarrow> []
            | Some e \<Rightarrow> [''Error saving output: '' @ e])"
    using L by (simp_all add: r pr empty_result_def split: option.splits)
qed

lemma in_scope_roster_map:
  "in_scope lib selected_date program_filter (roster_map attendance_day reg_col_map) =
   in_scope lib selected_date program_filter reg_col_map"
  by (rule ext) (simp add: in_scope_def split: option.splits)

lemma run_exists:
  assumes lr: "load_registration_csv lib reg_filepath reg_override = Inr (reg_df, reg_col_map)"
    and lz: "load_zoom_csv lib zoom_filepath zoom_override = Inr (zoom_df, zoom_col_map)"
    and prep: "prepare lib selected_date attendance_day program_filter
                 reg_df reg_col_map zoom_df zoom_col_map = Inr p"
  shows "\<exists>res d out.
           mark_and_save lib reg_filepath selected_date attendance_day program_filter
             min_duration output_dir p = (res, d, out) \<and>
           process_attendance lib reg_filepath zoom_filepath selected_date attendance_day
             program_filter min_duration output_dir reg_override zoom_override =
           Inr (res, Some (d, out))"
proof -
  obtain res d out where ms: "mark_and_save lib reg_filepath selected_date attendance_day
      program_filter min_duration output_dir p = (res, d, out)"
    by (cases "mark_and_save lib reg_filepath selected_date attendance_day
      program_filter min_duration output_dir p") auto
  then show ?thesis
    by (simp add: process_attendance_loaded[OF lr lz] prep andthen_def)
qed

lemma run_Inr:
  assumes lr: "load_registration_csv lib reg_filepath reg_override = Inr (reg_df, reg_col_map)"
    and lz: "load_zoom_csv lib zoom_filepath zoom_override = Inr (zoom_df, zoom_col_map)"
    and run: "process_attendance lib reg_filepath zoom_filepath selected_date attendance_day
             program_filter min_duration output_dir reg_override zoom_override = Inr (res, tables)"
  shows "\<exists>p d out. prepare lib selected_date attendance_day program_filter
                 reg_df reg_col_map zoom_df zoom_col_map = Inr p \<and>
           mark_and_save lib reg_filepath selected_date attendance_day program_filter
             min_duration output_dir p = (res, d, out) \<and> tables = Some (d, out)"
proof -
  from run obtain p where prep: "prepare lib selected_date attendance_day program_filter
                 reg_df reg_col_map zoom_df zoom_col_map = Inr p"
    and r: "(case mark_and_save lib reg_filepath selected_date attendance_day program_filter
                        min_duration output_dir p of
                   (result, reg_df2, output_df) \<Rightarrow> Inr (result, Some (reg_df2, output_df)))
            = (Inr (res, tables) :: py_error + attendance_result \<times> (dataframe \<times> dataframe) option)"
    unfolding process_attendance_loaded[OF lr lz] andthen_Inr_iff by blast
  obtain r' d out where ms: "mark_and_save lib reg_filepath selected_date attendance_day
      program_filter min_duration output_dir p = (r', d, out)"
    by (cases "mark_and_save lib reg_filepath selected_date attendance_day
      program_filter min_duration output_dir p") auto
  with r have "r' = res" "tables = Some (d, out)" by auto
  with prep ms show ?thesis by blast
qed


lemma mark_and_save_eq:
  "mark_and_save lib reg_filepath selected_date attendance_day program_filter min_duration
     output_dir p =
   (let d = fst (after_loop p min_duration);
        out = drop_columns [''_normalized_email'', ''_parsed_date''] d;
        path = output_path_of lib reg_filepath selected_date attendance_day program_filter
                 output_dir
    in ((case to_csv lib out path of
           None \<Rightarrow> (statistics p min_duration)\<lparr>output_filepath := path\<rparr>
         | Some e \<Rightarrow> (statistics p min_duration)\<lparr>errors :=
                       errors (statistics p min_duration) @ [''Error saving output: '' @ e]\<rparr>),
        d, out))"
  by (simp add: mark_and_save_def after_loop_def statistics_def output_path_of_def Let_def
           split: prod.splits option.splits)

lemma same_library:
  assumes "read_csv lib' = read_csv lib" "to_datetime lib' = to_datetime lib"
      "str_num lib' = str_num lib"
  shows "load_registration_csv lib' = load_registration_csv lib"
    and "load_zoom_csv lib' = load_zoom_csv lib"
    and "prepare lib' = prepare lib"
proof -
  show "load_registration_csv lib' = load_registration_csv lib"
    by (intro ext) (simp only: load_registration_csv_def read_csv_safe_def assms)
  show "load_zoom_csv lib' = load_zoom_csv lib"
    by (intro ext) (simp only: load_zoom_csv_def read_csv_safe_def assms)
  show "prepare lib' = prepare lib"
    by (intro ext) (simp only: prepare_def scope_mask_def assms)
qed

lemma statistics_fields:
  assumes prep: "prepare lib selected_date attendance_day program_filter reg_df0 reg_col_map0
                   zoom_df zoom_col_map = Inr p"
  shows "errors (statistics p min_duration) = []"
    and "output_filepath (statistics p min_duration) = []"
proof -
  obtain res d out where ms: "mark_and_save (lib\<lparr>to_csv := \<lambda>df path. Some []\<rparr>) [] selected_date
      attendance_day program_filter min_duration None p = (res, d, out)"
    by (cases "mark_and_save (lib\<lparr>to_csv := \<lambda>df path. Some []\<rparr>) [] selected_date
      attendance_day program_filter min_duration None p") auto
  have prep': "prepare (lib\<lparr>to_csv := \<lambda>df path. Some []\<rparr>) selected_date attendance_day
      program_filter reg_df0 reg_col_map0 zoom_df zoom_col_map = Inr p"
    using prep same_library(3)[of "lib\<lparr>to_csv := \<lambda>df path. Some []\<rparr>" lib] by simp
  note F = mark_and_save_facts[OF prep' ms]
  from ms have r: "res = (statistics p min_duration)\<lparr>errors :=
                       errors (statistics p min_duration) @ [''Error saving output: '']\<rparr>"
    by (simp add: mark_and_save_eq Let_def)
  from F(13) r show "errors (statistics p min_duration) = []" by simp
  from F(12) r show "output_filepath (statistics p min_duration) = []" by simp
qed

text \<open>
  C7. When writing the output fails, the run still returns its result: it is the result of
  the same run with a writer that succeeds, except that the output path is left empty and
  the error about saving is the one entry of the error list. The tables are the same.
\<close>

theorem write_failure_keeps_statistics:
  assumes lr: "load_registration_csv lib reg_filepath reg_override = Inr (reg_df, reg_col_map)"
    and lz: "load_zoom_csv lib zoom_filepath zoom_override = Inr (zoom_df, zoom_col_map)"
    and run: "process_attendance lib reg_filepath zoom_filepath selected_date attendance_day
             program_filter min_duration output_dir reg_override zoom_override
             = Inr (res, Some (d, out))"
    and fail: "to_csv lib out (output_path_of lib reg_filepath selected_date attendance_day
                                 program_filter output_dir) = Some e"
    and same: "read_csv lib' = read_csv lib" "to_datetime lib' = to_datetime lib"
      "str_num lib' = str_num lib" "dirname lib' = dirname lib" "path_join lib' = path_join lib"
    and ok: "to_csv lib' out (output_path_of lib reg_filepath selected_date attendance_day
                                 program_filter output_dir) = None"
  shows "\<exists>res'. process_attendance lib' reg_filepath zoom_filepath selected_date attendance_day
             program_filter min_duration output_dir reg_override zoom_override
             = Inr (res', Some (d, out)) \<and>
           res = res'\<lparr>output_filepath := [], errors := [''Error saving output: '' @ e]\<rparr> \<and>
           errors res' = [] \<and>
           total_registrations res = total_registrations res' \<and>
           total_zoom_participants res = total_zoom_participants res' \<and>
           matched_present res = matched_present res' \<and>
           matched_below_threshold res = matched_below_threshold res' \<and>
           not_found_in_zoom res = not_found_in_zoom res' \<and>
           unmatched_zoom_emails res = unmatched_zoom_emails res'"
proof -
  from run_Inr[OF lr lz run] obtain p where
    prep: "prepare lib selected_date attendance_day program_filter
             reg_df reg_col_map zoom_df zoom_col_map = Inr p"
    and ms: "mark_and_save lib reg_filepath selected_date attendance_day program_filter
             min_duration output_dir p = (res, d, out)"
    by blast
  note S = statistics_fields[OF prep, of min_duration]
  from ms have d: "d = fst (after_loop p min_duration)"
    and o: "out = drop_columns [''_normalized_email'', ''_parsed_date''] d"
    by (auto simp: mark_and_save_eq Let_def)
  from ms fail have r: "res = (statistics p min_duration)\<lparr>errors := [''Error saving output: '' @ e]\<rparr>"
    unfolding mark_and_save_eq Let_def using S by (auto simp: d[symmetric] o[symmetric])
  have path: "output_path_of lib' reg_filepath selected_date attendance_day program_filter
                output_dir =
              output_path_of lib reg_filepath selected_date attendance_day program_filter
                output_dir"
    by (simp add: output_path_of_def same split: option.splits)
  let ?res' = "(statistics p min_duration)\<lparr>output_filepath :=
      output_path_of lib reg_filepath selected_date attendance_day program_filter output_dir\<rparr>"
  have ms': "mark_and_save lib' reg_filepath selected_date attendance_day program_filter
             min_duration output_dir p = (?res', d, out)"
    unfolding mark_and_save_eq Let_def path using ok by (simp add: d[symmetric] o[symmetric])
  have "process_attendance lib' reg_filepath zoom_filepath selected_date attendance_day
             program_filter min_duration output_dir reg_override zoom_override
             = Inr (?res', Some (d, out))"
    using lr lz prep ms'
    by (simp add: process_attendance_def same_library[OF same(1,2,3)] andthen_def)
  moreover have "res = ?res'\<lparr>output_filepath := [], errors := [''Error saving output: '' @ e]\<rparr>"
    using S by (simp add: r)
  moreover have "errors ?res' = []" using S by simp
  ultimately show ?thesis by (intro exI[of _ ?res']) (simp add: r)
qed

section \<open>The participation aggregate\<close>

lemma apply_all_Inr:
  "apply_all f xs = Inr ys \<Longrightarrow>
   length ys = length xs \<and> (\<forall>i<length xs. f (xs ! i) = Inr (ys ! i))"
proof (induction xs arbitrary: ys)
  case Nil
  then show ?case by simp
next
  case (Cons x xs)
  from Cons.prems obtain y ys' where y: "f x = Inr y" and r: "apply_all f xs = Inr ys'"
    and ys: "ys = y # ys'"
    by (auto split: sum.splits)
  from Cons.IH[OF r] y ys show ?case
    by (auto simp: nth_Cons split: nat.splits)
qed


lemma zoom_dict_keys:
  "map fst (make_zoom_dict emails minutes) = filter (\<lambda>k. k \<noteq> []) (sort (remdups emails))"
  by (simp add: make_zoom_dict_def comp_def)

lemma zoom_dict_keys_props:
  "distinct (map fst (make_zoom_dict emails minutes))"
  "sorted (map fst (make_zoom_dict emails minutes))"
  "set (map fst (make_zoom_dict emails minutes)) = set emails - {[]}"
  unfolding zoom_dict_keys by (auto simp: sorted_filter[where f = "\<lambda>x. x", simplified])


lemma foldl_fadd_Fin: "foldl fadd (Fin a) (map Fin rs) = Fin (a + sum_list rs)"
  by (induction rs arbitrary: a) (simp_all add: add.assoc)

lemma group_sum_Fin: "group_sum (map Fin rs) = Fin (sum_list rs)"
proof -
  have "filter (\<lambda>d. d \<noteq> NaN) (map Fin rs) = map Fin rs"
    by (induction rs) simp_all
  then show ?thesis by (simp add: group_sum_def foldl_fadd_Fin)
qed

lemma unmatched_of_props:
  assumes "distinct (map fst zd)"
  shows "sorted (unmatched_of zd es)" "distinct (unmatched_of zd es)"
    "set (unmatched_of zd es) = fst ` set zd - set es"
  using assms by (auto simp: unmatched_of_def)


section \<open>The claims about the reconciliation\<close>


text \<open>
  C3, as amended. When the attendance column is not the working column
  \<open>_normalized_email\<close>, the list of unmatched identities is sorted ascending, has no
  duplicate, and holds exactly the keys of the aggregate that are not the non-empty
  identity of a row in scope; the keys of the aggregate are the non-empty normalized
  identities of the participation table.
\<close>

theorem unmatched_identities:
  assumes lr: "load_registration_csv lib reg_filepath reg_override = Inr (reg_df, reg_col_map)"
    and lz: "load_zoom_csv lib zoom_filepath zoom_override = Inr (zoom_df, zoom_col_map)"
    and prep: "prepare lib selected_date attendance_day program_filter
                 reg_df reg_col_map zoom_df zoom_col_map = Inr p"
    and att: "p_att_col_name p \<noteq> ''_normalized_email''"
  shows "\<exists>res d out ezc.
     process_attendance lib reg_filepath zoom_filepath selected_date attendance_day
       program_filter min_duration output_dir reg_override zoom_override
       = Inr (res, Some (d, out)) \<and>
     sorted (unmatched_zoom_emails res) \<and> distinct (unmatched_zoom_emails res) \<and>
     set (unmatched_zoom_emails res) =
       fst ` set (p_zoom_dict p)
       - {e. e \<noteq> [] \<and> (\<exists>i\<in>set (p_filtered_indices p).
                             at_get (p_reg_df p) i ''_normalized_email'' = Str e)} \<and>
     zoom_col_map ''Email'' = Some ezc \<and>
     fst ` set (p_zoom_dict p) = (\<lambda>r. normalize_email (r ezc)) ` set (rows zoom_df) - {[]}"
proof -
  from run_exists[OF lr lz prep] obtain res d out where
    ms: "mark_and_save lib reg_filepath selected_date attendance_day program_filter
             min_duration output_dir p = (res, d, out)"
    and run: "process_attendance lib reg_filepath zoom_filepath selected_date attendance_day
       program_filter min_duration output_dir reg_override zoom_override
       = Inr (res, Some (d, out))"
    by blast
  note F = mark_and_save_facts[OF prep ms]
  from prepare_Inr[OF prep] obtain ezc row_mask minutes where
    z: "zoom_col_map ''Email'' = Some ezc"
    and sm: "scope_mask lib selected_date program_filter (roster_map attendance_day reg_col_map)
           (p_reg_df p) = Inr row_mask"
    and fi: "p_filtered_indices p = indices_of row_mask"
    and zd: "p_zoom_dict p = make_zoom_dict (map (\<lambda>r. normalize_email (r ezc)) (rows zoom_df)) minutes"
    by blast
  have len: "length row_mask = length (rows (p_reg_df p))"
    using scope_mask_Inr[OF sm] by simp
  have same: "\<And>i. i \<in> set (p_filtered_indices p) \<Longrightarrow>
      at_get d i ''_normalized_email'' = at_get (p_reg_df p) i ''_normalized_email''"
  proof -
    fix i assume i: "i \<in> set (p_filtered_indices p)"
    then have "i < length (rows (p_reg_df p))"
      using len by (simp add: fi indices_of_props)
    with F(3) i att show "at_get d i ''_normalized_email'' = at_get (p_reg_df p) i ''_normalized_email''"
      by (simp add: at_get_def)
  qed
  have emails: "set (reg_emails_for_date d (p_filtered_indices p)) =
      {e. e \<noteq> [] \<and> (\<exists>i\<in>set (p_filtered_indices p).
                             at_get (p_reg_df p) i ''_normalized_email'' = Str e)}"
  proof -
    have "set (reg_emails_for_date d (p_filtered_indices p)) =
          (\<Union>i\<in>set (p_filtered_indices p). set (cell_strs (at_get (p_reg_df p) i ''_normalized_email'')))"
      by (simp add: reg_emails_for_date_def same)
    also have "\<dots> = {e. e \<noteq> [] \<and> (\<exists>i\<in>set (p_filtered_indices p).
                             at_get (p_reg_df p) i ''_normalized_email'' = Str e)}"
    proof -
      have "\<And>c e. e \<in> set (cell_strs c) \<longleftrightarrow> e \<noteq> [] \<and> c = Str e"
        by (case_tac c) auto
      then show ?thesis by auto
    qed
    finally show ?thesis .
  qed
  have dk: "distinct (map fst (p_zoom_dict p))"
    unfolding zd by (rule zoom_dict_keys_props)
  have keys: "fst ` set (p_zoom_dict p) = (\<lambda>r. normalize_email (r ezc)) ` set (rows zoom_df) - {[]}"
    using zoom_dict_keys_props(3)[of "map (\<lambda>r. normalize_email (r ezc)) (rows zoom_df)" minutes]
    by (simp add: zd)
  note U = unmatched_of_props[OF dk, of "reg_emails_for_date d (p_filtered_indices p)",
             folded F(9), unfolded emails]
  show ?thesis
    apply (rule exI[of _ res], rule exI[of _ d], rule exI[of _ out], rule exI[of _ ezc])
    apply (intro conjI)
    apply (rule run U z keys)+
    done
qed

section \<open>The program filter\<close>

lemma scope_mask_ignored:
  assumes "active_filter program_filter = None \<or> reg_col_map ''Version'' = None"
  shows "scope_mask lib selected_date program_filter reg_col_map df =
         Inr (map (\<lambda>r. r ''_parsed_date'' = DateV selected_date) (rows df))"
  using assms by (auto simp: scope_mask_def Let_def split: option.splits)

lemma map_sum_andthen:
  "map_sum id g (andthen x f) = andthen x (\<lambda>a. map_sum id g (f a))"
  by (cases x) (simp_all add: andthen_def)

lemma andthen_Inr [simp]: "andthen (Inr a) f = f a"
  by (simp add: andthen_def)

lemma map_sum_if:
  "map_sum id g (if c then x else y) = (if c then map_sum id g x else map_sum id g y)"
  by simp

lemma prepare_ignored_filter:
  assumes "active_filter program_filter = None \<or> reg_col_map ''Version'' = None"
  shows "prepare lib selected_date attendance_day program_filter reg_df reg_col_map
           zoom_df zoom_col_map =
         map_sum id (with_warning_for selected_date program_filter)
           (prepare lib selected_date attendance_day None reg_df reg_col_map
              zoom_df zoom_col_map)"
proof -
  have v: "active_filter program_filter = None \<or>
           (if reg_col_map (att_col_key_of attendance_day) = None
            then reg_col_map(att_col_key_of attendance_day \<mapsto>
                   ''Attendance - Day '' @ show_int attendance_day)
            else reg_col_map) ''Version'' = None"
    using assms by auto
  have s1: "scope_mask lib selected_date program_filter
           (if reg_col_map (att_col_key_of attendance_day) = None
            then reg_col_map(att_col_key_of attendance_day \<mapsto>
                   ''Attendance - Day '' @ show_int attendance_day)
            else reg_col_map) df =
         Inr (map (\<lambda>r. r ''_parsed_date'' = DateV selected_date) (rows df))" for df
    using v by (rule scope_mask_ignored)
  have s2: "scope_mask lib selected_date None m df =
         Inr (map (\<lambda>r. r ''_parsed_date'' = DateV selected_date) (rows df))" for m df
    by (rule scope_mask_ignored) (simp add: active_filter_def)
  show ?thesis
    unfolding prepare_def Let_def s1 s2 map_sum_andthen map_sum_if andthen_Inr
    by (simp add: with_warning_for_def empty_result_def map_sum_andthen split del: if_split
             cong: if_cong)
qed

lemma map_sum_id_Inr:
  "map_sum id g x = Inr p \<Longrightarrow> \<exists>p0. x = Inr p0 \<and> p = g p0"
  by (cases x) auto

lemma in_scope_date_only:
  "active_filter program_filter = None \<or> reg_col_map ''Version'' = None \<Longrightarrow>
   in_scope lib selected_date program_filter reg_col_map row =
     (row ''_parsed_date'' = DateV selected_date)"
  by (auto simp: in_scope_def split: option.splits)

lemma in_scope_program:
  "active_filter program_filter = Some f \<Longrightarrow> reg_col_map ''Version'' = Some vc \<Longrightarrow>
   in_scope lib selected_date program_filter reg_col_map row =
     (row ''_parsed_date'' = DateV selected_date \<and>
      py_strip (py_str (str_num lib) (row vc)) = f)"
  by (simp add: in_scope_def)

lemma filtered_indices_set:
  assumes prep: "prepare lib selected_date attendance_day program_filter reg_df reg_col_map
                   zoom_df zoom_col_map = Inr p"
  shows "set (p_filtered_indices p) =
           {i. i < length (rows (p_reg_df p)) \<and>
               in_scope lib selected_date program_filter reg_col_map (rows (p_reg_df p) ! i)}"
proof -
  from prepare_Inr[OF prep] obtain row_mask where
    sm: "scope_mask lib selected_date program_filter (roster_map attendance_day reg_col_map)
           (p_reg_df p) = Inr row_mask"
    and fi: "p_filtered_indices p = indices_of row_mask"
    by (elim exE conjE) (rule that; assumption)
  show ?thesis
    unfolding fi scope_mask_Inr[OF sm] in_scope_roster_map by (rule indices_of_map(1))
qed

lemma same_tables:
  assumes prep: "prepare lib selected_date attendance_day program_filter reg_df0 reg_col_map0
                   zoom_df zoom_col_map = Inr p"
    and prep0: "prepare lib selected_date attendance_day program_filter0 reg_df0 reg_col_map0
                   zoom_df zoom_col_map = Inr p0"
    and ms: "mark_and_save lib reg_filepath selected_date attendance_day program_filter
                min_duration output_dir p = (res, d, out)"
    and ms0: "mark_and_save lib reg_filepath selected_date attendance_day program_filter0
                min_duration output_dir p0 = (res0, d0, out0)"
    and eq: "p_reg_df p = p_reg_df p0" "p_filtered_indices p = p_filtered_indices p0"
      "p_zoom_dict p = p_zoom_dict p0" "p_att_col_name p = p_att_col_name p0"
  shows "d = d0" and "out = out0"
    and "matched_present res = matched_present res0"
    and "matched_below_threshold res = matched_below_threshold res0"
    and "not_found_in_zoom res = not_found_in_zoom res0"
    and "total_registrations res = total_registrations res0"
    and "total_zoom_participants res = total_zoom_participants res0"
    and "unmatched_zoom_emails res = unmatched_zoom_emails res0"
proof -
  note F = mark_and_save_facts[OF prep ms]
  note G = mark_and_save_facts[OF prep0 ms0]
  have "rows d = rows d0"
  proof (rule nth_equalityI)
    show "length (rows d) = length (rows d0)" by (simp add: F(2) G(2) eq)
    fix i assume "i < length (rows d)"
    then have i: "i < length (rows (p_reg_df p))" by (simp add: F(2))
    from F(3) i have "rows d ! i =
           (if i \<in> set (p_filtered_indices p)
            then (rows (p_reg_df p) ! i)(p_att_col_name p :=
                   mark_of (verdict_of (p_zoom_dict p) min_duration
                              (at_get (p_reg_df p) i ''_normalized_email'')))
            else rows (p_reg_df p) ! i)" by blast
    moreover from G(3) i have "rows d0 ! i =
           (if i \<in> set (p_filtered_indices p0)
            then (rows (p_reg_df p0) ! i)(p_att_col_name p0 :=
                   mark_of (verdict_of (p_zoom_dict p0) min_duration
                              (at_get (p_reg_df p0) i ''_normalized_email'')))
            else rows (p_reg_df p0) ! i)" by (simp add: eq)
    ultimately show "rows d ! i = rows d0 ! i" by (simp add: eq)
  qed
  moreover have "columns d = columns d0" by (simp add: F(1) G(1) eq)
  ultimately show d: "d = d0" by (intro dataframe.equality) simp_all
  show "out = out0" by (simp add: F(11) G(11) d)
  show "matched_present res = matched_present res0"
    "matched_below_threshold res = matched_below_threshold res0"
    "not_found_in_zoom res = not_found_in_zoom res0"
    "total_registrations res = total_registrations res0"
    "total_zoom_participants res = total_zoom_participants res0"
    by (simp_all add: F G eq)
  show "unmatched_zoom_emails res = unmatched_zoom_emails res0"
    by (simp add: F(9) G(9) eq d)
qed

text \<open>
  C10. The program filter counts only when it is a non-empty string other than \<open>All\<close>
  and the roster mapping has the key \<open>Version\<close>: then a row is in scope when its date
  matches and its program field, stripped, is the filter. In every other case the rows in
  scope are those whose date matches, the preparation fails exactly when it fails without
  a filter, and a run returns the tables, the counts and the unmatched list of the run
  without a filter; its only warning is the one for an empty scope.
\<close>

theorem program_filter_gate:
  assumes lr: "load_registration_csv lib reg_filepath reg_override = Inr (reg_df, reg_col_map)"
    and lz: "load_zoom_csv lib zoom_filepath zoom_override = Inr (zoom_df, zoom_col_map)"
  shows
    "(active_filter program_filter = None \<longleftrightarrow>
        program_filter = None \<or> program_filter = Some [] \<or> program_filter = Some ''All'') \<and>
     (\<forall>p f vc.
        prepare lib selected_date attendance_day program_filter reg_df reg_col_map
          zoom_df zoom_col_map = Inr p \<and>
        active_filter program_filter = Some f \<and> reg_col_map ''Version'' = Some vc \<longrightarrow>
        set (p_filtered_indices p) =
          {i. i < length (rows (p_reg_df p)) \<and>
              (rows (p_reg_df p) ! i) ''_parsed_date'' = DateV selected_date \<and>
              py_strip (py_str (str_num lib) ((rows (p_reg_df p) ! i) vc)) = f}) \<and>
     (active_filter program_filter = None \<or> reg_col_map ''Version'' = None \<longrightarrow>
        prepare lib selected_date attendance_day program_filter reg_df reg_col_map
          zoom_df zoom_col_map =
        map_sum id (with_warning_for selected_date program_filter)
          (prepare lib selected_date attendance_day None reg_df reg_col_map
             zoom_df zoom_col_map) \<and>
        (\<forall>p. prepare lib selected_date attendance_day program_filter reg_df reg_col_map
               zoom_df zoom_col_map = Inr p \<longrightarrow>
             set (p_filtered_indices p) =
               {i. i < length (rows (p_reg_df p)) \<and>
                   (rows (p_reg_df p) ! i) ''_parsed_date'' = DateV selected_date}) \<and>
        (\<forall>res tables.
           process_attendance lib reg_filepath zoom_filepath selected_date attendance_day
             program_filter min_duration output_dir reg_override zoom_override
             = Inr (res, tables) \<longrightarrow>
           warnings res = (if total_registrations res = 0
                           then [no_registrations_warning selected_date program_filter]
                           else []) \<and>
           (\<exists>res0. process_attendance lib reg_filepath zoom_filepath selected_date
                      attendance_day None min_duration output_dir reg_override zoom_override
                      = Inr (res0, tables) \<and>
                    total_registrations res = total_registrations res0 \<and>
                    total_zoom_participants res = total_zoom_participants res0 \<and>
                    matched_present res = matched_present res0 \<and>
                    matched_below_threshold res = matched_below_threshold res0 \<and>
                    not_found_in_zoom res = not_found_in_zoom res0 \<and>
                    unmatched_zoom_emails res = unmatched_zoom_emails res0)))"
proof (intro conjI allI impI)
  show "active_filter program_filter = None \<longleftrightarrow>
        program_filter = None \<or> program_filter = Some [] \<or> program_filter = Some ''All''"
    by (auto simp: active_filter_def split: option.splits)
next
  fix p f vc
  assume a: "prepare lib selected_date attendance_day program_filter reg_df reg_col_map
          zoom_df zoom_col_map = Inr p \<and>
        active_filter program_filter = Some f \<and> reg_col_map ''Version'' = Some vc"
  then have prep: "prepare lib selected_date attendance_day program_filter reg_df reg_col_map
          zoom_df zoom_col_map = Inr p" by simp
  from a have af: "active_filter program_filter = Some f" and v: "reg_col_map ''Version'' = Some vc"
    by simp_all
  show "set (p_filtered_indices p) =
          {i. i < length (rows (p_reg_df p)) \<and>
              (rows (p_reg_df p) ! i) ''_parsed_date'' = DateV selected_date \<and>
              py_strip (py_str (str_num lib) ((rows (p_reg_df p) ! i) vc)) = f}"
    unfolding filtered_indices_set[OF prep] in_scope_program[where reg_col_map = reg_col_map and program_filter = program_filter, OF af v] ..
next
  assume ig: "active_filter program_filter = None \<or> reg_col_map ''Version'' = None"
  show "prepare lib selected_date attendance_day program_filter reg_df reg_col_map
          zoom_df zoom_col_map =
        map_sum id (with_warning_for selected_date program_filter)
          (prepare lib selected_date attendance_day None reg_df reg_col_map
             zoom_df zoom_col_map)"
    by (rule prepare_ignored_filter[where reg_col_map = reg_col_map and program_filter = program_filter, OF ig])
next
  fix p
  assume ig: "active_filter program_filter = None \<or> reg_col_map ''Version'' = None"
    and prep: "prepare lib selected_date attendance_day program_filter reg_df reg_col_map
               zoom_df zoom_col_map = Inr p"
  show "set (p_filtered_indices p) =
               {i. i < length (rows (p_reg_df p)) \<and>
                   (rows (p_reg_df p) ! i) ''_parsed_date'' = DateV selected_date}"
    unfolding filtered_indices_set[OF prep]
      in_scope_date_only[where reg_col_map = reg_col_map and program_filter = program_filter, OF ig] ..
next
  fix res tables
  assume ig: "active_filter program_filter = None \<or> reg_col_map ''Version'' = None"
    and run: "process_attendance lib reg_filepath zoom_filepath selected_date attendance_day
             program_filter min_duration output_dir reg_override zoom_override
             = Inr (res, tables)"
  from run_Inr[OF lr lz run] obtain p d out where
    prep: "prepare lib selected_date attendance_day program_filter
             reg_df reg_col_map zoom_df zoom_col_map = Inr p"
    and ms: "mark_and_save lib reg_filepath selected_date attendance_day program_filter
             min_duration output_dir p = (res, d, out)"
    and t: "tables = Some (d, out)"
    by (elim exE conjE) (rule that; assumption)
  note F = mark_and_save_facts[OF prep ms]
  show "warnings res = (if total_registrations res = 0
                           then [no_registrations_warning selected_date program_filter]
                           else [])"
    by (simp add: F(7,10))
  from prep obtain p0 where
    prep0: "prepare lib selected_date attendance_day None
             reg_df reg_col_map zoom_df zoom_col_map = Inr p0"
    and pp: "p = with_warning_for selected_date program_filter p0"
    unfolding prepare_ignored_filter[where reg_col_map = reg_col_map and program_filter = program_filter, OF ig]
    by (elim map_sum_id_Inr[elim_format] exE conjE) (rule that; assumption)
  from run_exists[OF lr lz prep0, where min_duration = min_duration and output_dir = output_dir]
  obtain res0 d0 out0 where
    ms0: "mark_and_save lib reg_filepath selected_date attendance_day None
             min_duration output_dir p0 = (res0, d0, out0)"
    and run0: "process_attendance lib reg_filepath zoom_filepath selected_date
                      attendance_day None min_duration output_dir reg_override zoom_override
                      = Inr (res0, Some (d0, out0))"
    by (elim exE conjE) (rule that; assumption)
  have eq: "p_reg_df p = p_reg_df p0" "p_filtered_indices p = p_filtered_indices p0"
      "p_zoom_dict p = p_zoom_dict p0" "p_att_col_name p = p_att_col_name p0"
    by (simp_all add: pp with_warning_for_def)
  note S = same_tables[OF prep prep0 ms ms0 eq]
  show "\<exists>res0. process_attendance lib reg_filepath zoom_filepath selected_date
                      attendance_day None min_duration output_dir reg_override zoom_override
                      = Inr (res0, tables) \<and>
                    total_registrations res = total_registrations res0 \<and>
                    total_zoom_participants res = total_zoom_participants res0 \<and>
                    matched_present res = matched_present res0 \<and>
                    matched_below_threshold res = matched_below_threshold res0 \<and>
                    not_found_in_zoom res = not_found_in_zoom res0 \<and>
                    unmatched_zoom_emails res = unmatched_zoom_emails res0"
    apply (rule exI[of _ res0])
    apply (intro conjI)
    apply (unfold run0 t S(1) S(2), rule refl)
    apply (rule S)+
    done
qed

section \<open>The small run, evaluated\<close>

lemma ex_detect_roster:
  "detect_registration_columns (strip_columns ex_roster) = ex_roster_map"
  by (simp add: detect_registration_columns_def detect_registration_step_def strip_columns_def
        ex_roster_def ex_roster_map_def str_defs)

lemma ex_detect_zoom:
  "detect_zoom_columns (strip_columns ex_zoom) = ex_zoom_map"
  by (simp add: detect_zoom_columns_def detect_zoom_step_def strip_columns_def
        ex_zoom_def ex_zoom_map_def str_defs)

lemma ex_load_reg:
  "load_registration_csv ex_lib ''roster.csv'' None = Inr (strip_columns ex_roster, ex_roster_map)"
proof -
  have "read_csv_safe ex_lib ''roster.csv'' = Inr (strip_columns ex_roster)"
    by (simp add: read_csv_safe_def ex_lib_def)
  then show ?thesis
    by (simp add: load_registration_csv_eq resolved_map_def ex_detect_roster missing_keys_def
          ex_roster_map_def)
qed

lemma ex_load_zoom:
  "load_zoom_csv ex_lib ''zoom.csv'' None = Inr (strip_columns ex_zoom, ex_zoom_map)"
proof -
  have "read_csv_safe ex_lib ''zoom.csv'' = Inr (strip_columns ex_zoom)"
    by (simp add: read_csv_safe_def ex_lib_def)
  then show ?thesis
    by (simp add: load_zoom_csv_eq resolved_map_def ex_detect_zoom missing_keys_def
          ex_zoom_map_def)
qed

lemmas date_defs = parse_date_def formats_def strptime_def re_match_def rx_digit_def
  valid_date_def days_in_month_def is_leap_def digits_val_def digit_val_def Plus_def
  rx_space_def month_abbrs_def month_names_def rx_month_abbrs_def rx_month_names_def
  index_of_def

lemmas float_defs = parse_duration_to_minutes_def duration_of_string_def py_float_def
  split_sign_def decimal_def opt_digitpart_def exponent_def scale10_def is_digit_def
  digits_val_def digit_val_def

lemmas run_defs = process_attendance_def load_registration_csv_def load_zoom_csv_def
  read_csv_safe_def detect_registration_columns_def detect_registration_step_def
  detect_zoom_columns_def detect_zoom_step_def strip_columns_def prepare_def Let_def
  andthen_def lookup_def assign_from_def assign_const_def add_column_def att_col_key_of_def
  fillna_str_def scope_mask_def active_filter_def indices_of_def make_zoom_dict_def
  group_sum_def mark_and_save_def mark_row_def at_get_def at_set_def reg_emails_for_date_def
  unmatched_of_def drop_columns_def output_filename_def isoformat_def zero_pad_def
  digit_char_def show_int_def replace_char_def empty_result_def no_registrations_warning_def
  strftime_dmy_def

lemma ex_run:
  "map_sum id fst (process_attendance ex_lib ''roster.csv'' ''zoom.csv'' (Date 2025 1 15) 1
                     None 60 None None None) = Inr ex_result"
  unfolding ex_result_def
  by (simp add: run_defs ex_defs str_defs date_defs float_defs)

lemma ex_run_tables:
  "\<exists>tables. process_attendance ex_lib ''roster.csv'' ''zoom.csv'' (Date 2025 1 15) 1
               None 60 None None None = Inr (ex_result, tables)"
  using ex_run
  by (cases "process_attendance ex_lib ''roster.csv'' ''zoom.csv'' (Date 2025 1 15) 1
               None 60 None None None") auto



theorem unmatched_identities_witness:
  "\<exists>p. prepare ex_lib (Date 2025 1 15) 1 None (strip_columns ex_roster) ex_roster_map
          (strip_columns ex_zoom) ex_zoom_map = Inr p \<and>
       p_att_col_name p \<noteq> ''_normalized_email'' \<and>
       (\<exists>tables. process_attendance ex_lib ''roster.csv'' ''zoom.csv'' (Date 2025 1 15) 1
                   None 60 None None None = Inr (ex_result, tables)) \<and>
       unmatched_zoom_emails ex_result = [''unknown@random.com''] \<and>
       set (unmatched_zoom_emails ex_result) =
         fst ` set (p_zoom_dict p)
         - {e. e \<noteq> [] \<and> (\<exists>i\<in>set (p_filtered_indices p).
                               at_get (p_reg_df p) i ''_normalized_email'' = Str e)}"
proof -
  from ex_run_tables obtain tables where
    run: "process_attendance ex_lib ''roster.csv'' ''zoom.csv'' (Date 2025 1 15) 1
               None 60 None None None = Inr (ex_result, tables)" ..
  from run_Inr[OF ex_load_reg ex_load_zoom run] obtain p where
    prep: "prepare ex_lib (Date 2025 1 15) 1 None (strip_columns ex_roster) ex_roster_map
          (strip_columns ex_zoom) ex_zoom_map = Inr p"
    by blast
  from prepare_Inr[OF prep] have "roster_map 1 ex_roster_map (att_col_key_of 1)
      = Some (p_att_col_name p)" by (elim exE conjE) simp
  then have att: "p_att_col_name p \<noteq> ''_normalized_email''"
    by (auto simp: roster_map_def att_col_key_of_def ex_roster_map_def)
  from unmatched_identities[OF ex_load_reg ex_load_zoom prep att,
      where min_duration = 60 and output_dir = None]
  obtain res d out where
    r: "process_attendance ex_lib ''roster.csv'' ''zoom.csv'' (Date 2025 1 15) 1
               None 60 None None None = Inr (res, Some (d, out))"
    and s: "set (unmatched_zoom_emails res) =
         fst ` set (p_zoom_dict p)
         - {e. e \<noteq> [] \<and> (\<exists>i\<in>set (p_filtered_indices p).
                               at_get (p_reg_df p) i ''_normalized_email'' = Str e)}"
    by (elim exE conjE) (rule that; assumption)
  from r have res: "res = ex_result" unfolding run by auto
  have u: "unmatched_zoom_emails ex_result = [''unknown@random.com'']"
    by (simp add: ex_result_def)
  show ?thesis
    apply (rule exI[of _ p])
    apply (intro conjI)
    apply (rule prep att ex_run_tables u s[unfolded res])+
    done
qed

theorem write_failure_keeps_statistics_witness:
  "\<exists>d out.
     process_attendance ex_lib_fail ''roster.csv'' ''zoom.csv'' (Date 2025 1 15) 1
       None 60 None None None =
       Inr (ex_result\<lparr>output_filepath := [],
                       errors := [''Error saving output: '' @ ''Permission denied'']\<rparr>,
            Some (d, out)) \<and>
     to_csv ex_lib_fail out
       (output_path_of ex_lib_fail ''roster.csv'' (Date 2025 1 15) 1 None None)
       = Some ''Permission denied'' \<and>
     process_attendance ex_lib ''roster.csv'' ''zoom.csv'' (Date 2025 1 15) 1
       None 60 None None None = Inr (ex_result, Some (d, out))"
proof -
  have same: "read_csv ex_lib = read_csv ex_lib_fail" "to_datetime ex_lib = to_datetime ex_lib_fail"
    "str_num ex_lib = str_num ex_lib_fail" "dirname ex_lib = dirname ex_lib_fail"
    "path_join ex_lib = path_join ex_lib_fail"
    by (simp_all add: ex_lib_fail_def)
  have lr: "load_registration_csv ex_lib_fail ''roster.csv'' None =
     Inr (strip_columns ex_roster, ex_roster_map)"
    unfolding same_library(1)[OF same(1,2,3), symmetric] by (rule ex_load_reg)
  have lz: "load_zoom_csv ex_lib_fail ''zoom.csv'' None = Inr (strip_columns ex_zoom, ex_zoom_map)"
    unfolding same_library(2)[OF same(1,2,3), symmetric] by (rule ex_load_zoom)
  from ex_run_tables obtain tables where
    run: "process_attendance ex_lib ''roster.csv'' ''zoom.csv'' (Date 2025 1 15) 1
               None 60 None None None = Inr (ex_result, tables)" ..
  from run_Inr[OF ex_load_reg ex_load_zoom run] obtain p where
    prep0: "prepare ex_lib (Date 2025 1 15) 1 None (strip_columns ex_roster) ex_roster_map
          (strip_columns ex_zoom) ex_zoom_map = Inr p"
    by blast
  have prep: "prepare ex_lib_fail (Date 2025 1 15) 1 None (strip_columns ex_roster) ex_roster_map
          (strip_columns ex_zoom) ex_zoom_map = Inr p"
    unfolding same_library(3)[OF same(1,2,3), symmetric] by (rule prep0)
  from run_exists[OF lr lz prep, where min_duration = 60 and output_dir = None]
  obtain res d out where
    r: "process_attendance ex_lib_fail ''roster.csv'' ''zoom.csv'' (Date 2025 1 15) 1
               None 60 None None None = Inr (res, Some (d, out))"
    by blast
  have fail: "to_csv ex_lib_fail out
       (output_path_of ex_lib_fail ''roster.csv'' (Date 2025 1 15) 1 None None)
       = Some ''Permission denied''"
    by (simp add: ex_lib_fail_def)
  have ok: "to_csv ex_lib out
       (output_path_of ex_lib_fail ''roster.csv'' (Date 2025 1 15) 1 None None) = None"
    by (simp add: ex_lib_def)
  from write_failure_keeps_statistics[OF lr lz r fail same ok] obtain res' where
    r': "process_attendance ex_lib ''roster.csv'' ''zoom.csv'' (Date 2025 1 15) 1
               None 60 None None None = Inr (res', Some (d, out))"
    and eq: "res = res'\<lparr>output_filepath := [],
                       errors := [''Error saving output: '' @ ''Permission denied'']\<rparr>"
    by (elim exE conjE) (rule that; assumption)
  from r' have e: "res' = ex_result" unfolding run by auto
  show ?thesis
    apply (rule exI[of _ d], rule exI[of _ out])
    apply (intro conjI)
    apply (rule r[unfolded eq e] fail r'[unfolded e])+
    done
qed

end
